theory Spec2Isabelle
  imports Complex_Main "HOL-Library.Char_ord" "HOL-Library.List_Lexorder" "HOL-Library.Product_Lexorder"
begin

section \<open>Values, objects and the environment\<close>

text \<open>
  The repository holds two variants of the same client. The service variant is
  \<^verbatim>\<open>src/src/app/app.component.ts\<close>: the controller \<^verbatim>\<open>AppComponent\<close> (lines 1-332) and
  the facade \<^verbatim>\<open>AuthService\<close> (lines 332-585). The monolithic variant is
  \<^verbatim>\<open>src/unnamed/part_000\<close>: one \<^verbatim>\<open>AppComponent\<close> that talks to the SDKs itself.
  Definitions of the service variant carry the prefix \<open>AuthService_\<close> or
  \<open>AppComponent_\<close>, those of the monolithic variant the prefix \<open>p0_\<close>.

  Field values of documents and of JavaScript objects. Numbers are only copied and
  compared by the code, never computed with, so they are reals (the value that is not
  a number is left out); a date is its time in milliseconds. \<open>VDate\<close> is a JavaScript \<^verbatim>\<open>Date\<close>, \<open>VTimestamp\<close> the store's own
  timestamp (the only value with a \<^verbatim>\<open>toDate\<close> method). A field that is absent reads as
  \<^verbatim>\<open>undefined\<close>: \<open>None\<close>.
\<close>

datatype val = VNull | VBool bool | VNum real | VStr string | VDate int | VTimestamp int

type_synonym obj = "string \<rightharpoonup> val"

datatype error = AuthError string | StoreError | InvalidArgument | TypeError | GeoError nat

text \<open>The \<^verbatim>\<open>code\<close> property of a thrown error; only the provider's errors have one.\<close>

fun error_code :: "error \<Rightarrow> string option" where
  "error_code (AuthError c) = Some c"
| "error_code _ = None"

text \<open>JavaScript truthiness, and \<^verbatim>\<open>a || b\<close> with \<open>a\<close> possibly \<^verbatim>\<open>undefined\<close>.\<close>

fun truthy :: "val \<Rightarrow> bool" where
  "truthy VNull = False"
| "truthy (VBool b) = b"
| "truthy (VNum x) = (x \<noteq> 0)"
| "truthy (VStr s) = (s \<noteq> [])"
| "truthy (VDate t) = True"
| "truthy (VTimestamp t) = True"

definition js_or :: "val option \<Rightarrow> val \<Rightarrow> val" where
  "js_or a b = (case a of None \<Rightarrow> b | Some v \<Rightarrow> if truthy v then v else b)"

text \<open>The identity provider's user object.\<close>

record auth_user =
  uid :: string
  email :: "string option"
  displayName :: "string option"

text \<open>Options and answer of the device location API.\<close>

record position_options =
  enableHighAccuracy :: bool
  timeout :: int
  maximumAge :: int

record geo_position =
  latitude :: real
  longitude :: real
  accuracy :: real
  timestamp :: int

text \<open>
  The environment of the client: the document store (each collection path holds its
  documents, identifier and fields), the session of the identity provider, the device
  location API and the clock. What the outside world decides is an oracle:
  \<^item> \<open>fails n\<close>: the \<open>n\<close>-th remote call is lost in transport (\<open>calls\<close> counts them);
  \<^item> \<open>autoId n\<close>: the identifier the store assigns when the \<open>n\<close>-th call adds a document;
  \<^item> \<open>clock n\<close>: what the \<open>n\<close>-th reading of the clock returns (\<open>ticks\<close> counts them);
  \<^item> \<open>verdict\<close>: the provider's answer to a sign-in, a user or an error code;
  \<^item> \<open>geolocation\<close>: whether \<^verbatim>\<open>navigator.geolocation\<close> exists, \<open>geo_answer\<close>: what the device
    answers to a position request, \<open>requests\<close>: the requests issued so far, each with
    the options it was given, if any.
\<close>

record env =
  db :: "string list \<Rightarrow> (string \<times> obj) list"
  currentUser :: "auth_user option"
  calls :: nat
  fails :: "nat \<Rightarrow> bool"
  autoId :: "nat \<Rightarrow> string"
  ticks :: nat
  clock :: "nat \<Rightarrow> int"
  verdict :: "string \<Rightarrow> string \<Rightarrow> string + auth_user"
  geolocation :: bool
  geo_answer :: "nat + geo_position"
  requests :: "position_options option list"

section \<open>Identity provider\<close>

text \<open>
  \<^verbatim>\<open>signInWithEmailAndPassword\<close>: the provider decides; a refused sign-in leaves the
  session as it was, an accepted one makes the user the current user.
\<close>

definition signInWithEmailAndPassword :: "string \<Rightarrow> string \<Rightarrow> env \<Rightarrow> (error + auth_user) \<times> env" where
  "signInWithEmailAndPassword em pw e =
     (case verdict e em pw of
        Inl c \<Rightarrow> (Inl (AuthError c), e)
      | Inr u \<Rightarrow> (Inr u, e\<lparr>currentUser := Some u\<rparr>))"

text \<open>
  \<^verbatim>\<open>updateProfile(user, {displayName})\<close>: a remote call; when it is not lost the
  current user carries the new display name.
\<close>

definition updateProfile :: "string \<Rightarrow> env \<Rightarrow> (error + unit) \<times> env" where
  "updateProfile name e =
     (let e1 = e\<lparr>calls := Suc (calls e)\<rparr> in
      if fails e (calls e) then (Inl (AuthError ''auth/network-request-failed''), e1)
      else (Inr (), e1\<lparr>currentUser := map_option (\<lambda>u. u\<lparr>displayName := Some name\<rparr>) (currentUser e1)\<rparr>))"

section \<open>Document store\<close>

text \<open>
  The store is an external collaborator; this is its contract as the client uses it
  (spec, section 6): path-addressed get, set, merge, update, add and delete of
  documents, and queries over one collection, unfiltered, filtered by the equality of
  one field, or ordered by one field.

  The store orders field values by their type first (null, booleans, numbers,
  timestamps, strings) and then by value; \<open>val_key\<close> maps a value to a key with that
  order. A query ordered by a field leaves out the documents without the field and
  breaks ties by identifier; the other queries answer in the order of identifiers.
\<close>

fun val_key :: "val \<Rightarrow> nat \<times> real \<times> string" where
  "val_key VNull = (0, 0, [])"
| "val_key (VBool b) = (1, of_bool b, [])"
| "val_key (VNum x) = (2, x, [])"
| "val_key (VDate t) = (3, real_of_int t, [])"
| "val_key (VTimestamp t) = (3, real_of_int t, [])"
| "val_key (VStr s) = (4, 0, s)"

definition val_le :: "val \<Rightarrow> val \<Rightarrow> bool" where
  "val_le a b = (val_key a \<le> val_key b)"

definition field_key :: "string \<Rightarrow> string \<times> obj \<Rightarrow> (nat \<times> real \<times> string) \<times> string" where
  "field_key f d = (case snd d f of None \<Rightarrow> ((0, 0, []), fst d) | Some v \<Rightarrow> (val_key v, fst d))"

datatype direction = Asc | Desc

datatype query =
    Collection "string list"
  | Where "string list" string val
  | OrderBy "string list" string direction

fun run_query :: "query \<Rightarrow> (string list \<Rightarrow> (string \<times> obj) list) \<Rightarrow> (string \<times> obj) list" where
  "run_query (Collection p) d = sort_key fst (d p)"
| "run_query (Where p f v) d = filter (\<lambda>x. snd x f = Some v) (sort_key fst (d p))"
| "run_query (OrderBy p f Asc) d = sort_key (field_key f) (filter (\<lambda>x. snd x f \<noteq> None) (d p))"
| "run_query (OrderBy p f Desc) d = rev (sort_key (field_key f) (filter (\<lambda>x. snd x f \<noteq> None) (d p)))"

text \<open>
  A list of records is in descending order of the field \<open>f\<close>: every record has the
  field, and a later record's value is at most an earlier one's in the store's order.
\<close>

definition sorted_desc :: "string \<Rightarrow> obj list \<Rightarrow> bool" where
  "sorted_desc f xs =
     sorted_wrt (\<lambda>a b. case (a f, b f) of (Some x, Some y) \<Rightarrow> val_le y x | _ \<Rightarrow> False) xs"

text \<open>A location document as both variants write it: its two dates are timestamps.\<close>

fun is_timestamp :: "val option \<Rightarrow> bool" where
  "is_timestamp (Some (VTimestamp t)) = True"
| "is_timestamp x = False"

definition stamped :: "string \<times> obj \<Rightarrow> bool" where
  "stamped d = (is_timestamp (snd d ''timestamp'') \<and> is_timestamp (snd d ''savedAt''))"

text \<open>A write turns a \<^verbatim>\<open>Date\<close> into the store's timestamp.\<close>

fun to_stored :: "val \<Rightarrow> val" where
  "to_stored (VDate t) = VTimestamp t"
| "to_stored v = v"

definition stored :: "obj \<Rightarrow> obj" where
  "stored d = (\<lambda>k. map_option to_stored (d k))"

text \<open>
  Every operation is one remote call. A call lost in transport fails with
  \<open>StoreError\<close> and changes nothing in the store.
\<close>

definition getDocs :: "query \<Rightarrow> env \<Rightarrow> (error + (string \<times> obj) list) \<times> env" where
  "getDocs q e =
     (let e1 = e\<lparr>calls := Suc (calls e)\<rparr> in
      if fails e (calls e) then (Inl StoreError, e1) else (Inr (run_query q (db e)), e1))"

definition getDoc :: "string list \<Rightarrow> string \<Rightarrow> env \<Rightarrow> (error + obj option) \<times> env" where
  "getDoc p i e =
     (let e1 = e\<lparr>calls := Suc (calls e)\<rparr> in
      if fails e (calls e) then (Inl StoreError, e1) else (Inr (map_of (db e p) i), e1))"

definition put :: "string list \<Rightarrow> string \<Rightarrow> obj \<Rightarrow> env \<Rightarrow> env" where
  "put p i d e = e\<lparr>db := (db e)(p := (i, d) # filter (\<lambda>x. fst x \<noteq> i) (db e p))\<rparr>"

definition setDoc :: "string list \<Rightarrow> string \<Rightarrow> obj \<Rightarrow> env \<Rightarrow> (error + unit) \<times> env" where
  "setDoc p i d e =
     (let e1 = e\<lparr>calls := Suc (calls e)\<rparr> in
      if fails e (calls e) then (Inl StoreError, e1) else (Inr (), put p i (stored d) e1))"

text \<open>\<^verbatim>\<open>setDoc(ref, data, { merge: true })\<close>: the fields of \<open>d\<close> over those the document has.\<close>

definition setDoc_merge :: "string list \<Rightarrow> string \<Rightarrow> obj \<Rightarrow> env \<Rightarrow> (error + unit) \<times> env" where
  "setDoc_merge p i d e =
     (let e1 = e\<lparr>calls := Suc (calls e)\<rparr> in
      if fails e (calls e) then (Inl StoreError, e1)
      else case map_of (db e p) i of
             None \<Rightarrow> (Inr (), put p i (stored d) e1)
           | Some old \<Rightarrow> (Inr (), put p i (old ++ stored d) e1))"

text \<open>\<^verbatim>\<open>updateDoc\<close>: as the merge, but a document that does not exist is an error.\<close>

definition updateDoc :: "string list \<Rightarrow> string \<Rightarrow> obj \<Rightarrow> env \<Rightarrow> (error + unit) \<times> env" where
  "updateDoc p i d e =
     (let e1 = e\<lparr>calls := Suc (calls e)\<rparr> in
      if fails e (calls e) then (Inl StoreError, e1)
      else case map_of (db e p) i of
             None \<Rightarrow> (Inl StoreError, e1)
           | Some old \<Rightarrow> (Inr (), put p i (old ++ stored d) e1))"

text \<open>\<^verbatim>\<open>addDoc\<close>: a set under the identifier the store assigns; the identifier is returned.\<close>

definition addDoc :: "string list \<Rightarrow> obj \<Rightarrow> env \<Rightarrow> (error + string) \<times> env" where
  "addDoc p d e =
     (let e1 = e\<lparr>calls := Suc (calls e)\<rparr> in
      if fails e (calls e) then (Inl StoreError, e1)
      else (Inr (autoId e (calls e)), put p (autoId e (calls e)) (stored d) e1))"

definition deleteDoc :: "string list \<Rightarrow> string \<Rightarrow> env \<Rightarrow> (error + unit) \<times> env" where
  "deleteDoc p i e =
     (let e1 = e\<lparr>calls := Suc (calls e)\<rparr> in
      if fails e (calls e) then (Inl StoreError, e1)
      else (Inr (), e1\<lparr>db := (db e)(p := filter (\<lambda>x. fst x \<noteq> i) (db e p))\<rparr>))"

text \<open>The store without the document \<open>i\<close> of the collection \<open>p\<close>: what a delete leaves.\<close>

definition without ::
    "string list \<Rightarrow> string \<Rightarrow> (string list \<Rightarrow> (string \<times> obj) list) \<Rightarrow> string list \<Rightarrow> (string \<times> obj) list" where
  "without p i d = d(p := filter (\<lambda>x. fst x \<noteq> i) (d p))"

text \<open>
  \<^verbatim>\<open>doc(firestore, ...)\<close> with the path given in pieces, as the deletes call it with
  a record's identifier last. No remote call is made: every piece is cut at its
  slashes and the empty parts are dropped; a piece with two slashes in a row is
  refused, and so is a path that does not end up with an even number of parts. The
  reference is the collection's path and the document's identifier. (The first piece
  is always \<^verbatim>\<open>'users'\<close>, so there is at least one part.) The other methods build
  their references from the user's identifier alone, which the provider issues and
  the service variant's controller checks; those references are taken as they are.
\<close>

fun split_slash :: "string \<Rightarrow> string list" where
  "split_slash [] = [[]]"
| "split_slash (c # cs) =
     (if c = CHR ''/'' then [] # split_slash cs
      else case split_slash cs of [] \<Rightarrow> [[c]] | y # ys \<Rightarrow> (c # y) # ys)"

fun double_slash :: "string \<Rightarrow> bool" where
  "double_slash (a # b # cs) = ((a = CHR ''/'' \<and> b = CHR ''/'') \<or> double_slash (b # cs))"
| "double_slash cs = False"

definition doc :: "string list \<Rightarrow> error + string list \<times> string" where
  "doc pieces =
     (if list_ex double_slash pieces then Inl InvalidArgument
      else let parts = concat (map (\<lambda>a. filter (\<lambda>x. x \<noteq> []) (split_slash a)) pieces)
           in if parts = [] \<or> odd (length parts) then Inl InvalidArgument
              else Inr (butlast parts, last parts))"

text \<open>An identifier as the store and the provider assign them: not empty, no slash.\<close>

definition plain :: "string \<Rightarrow> bool" where
  "plain x = (x \<noteq> [] \<and> CHR ''/'' \<notin> set x)"

text \<open>A field of the document \<open>i\<close> of the collection \<open>p\<close>, \<open>None\<close> when the document or the field is absent.\<close>

definition doc_field :: "env \<Rightarrow> string list \<Rightarrow> string \<Rightarrow> string \<Rightarrow> val option" where
  "doc_field e p i k = (case map_of (db e p) i of None \<Rightarrow> None | Some d \<Rightarrow> d k)"

text \<open>\<^verbatim>\<open>new Date()\<close>: one reading of the clock.\<close>

definition new_Date :: "env \<Rightarrow> int \<times> env" where
  "new_Date e = (clock e (ticks e), e\<lparr>ticks := Suc (ticks e)\<rparr>)"

section \<open>Device location API\<close>

text \<open>
  \<^verbatim>\<open>navigator.geolocation.getCurrentPosition\<close>: one single-shot request, recorded with
  its options; the device answers with a position or with an error code
  (1 permission denied, 2 position unavailable, 3 timeout).
\<close>

definition getCurrentPosition :: "position_options option \<Rightarrow> env \<Rightarrow> (nat + geo_position) \<times> env" where
  "getCurrentPosition opts e = (geo_answer e, e\<lparr>requests := requests e @ [opts]\<rparr>)"

text \<open>The interface \<^verbatim>\<open>Location\<close> of both variants, for the value captured and not yet saved.\<close>

record location =
  loc_id :: string
  loc_latitude :: real
  loc_longitude :: real
  loc_accuracy :: real
  loc_timestamp :: int
  loc_savedAt :: int

definition location_obj :: "location \<Rightarrow> obj" where
  "location_obj l =
     [''id'' \<mapsto> VStr (loc_id l), ''latitude'' \<mapsto> VNum (loc_latitude l),
      ''longitude'' \<mapsto> VNum (loc_longitude l), ''accuracy'' \<mapsto> VNum (loc_accuracy l),
      ''timestamp'' \<mapsto> VDate (loc_timestamp l), ''savedAt'' \<mapsto> VDate (loc_savedAt l)]"

section \<open>Service variant: sign-in\<close>

text \<open>The signals of \<^verbatim>\<open>AppComponent\<close> (app.component.ts, lines 19-57) that the modelled methods use.\<close>

record app =
  loginEmail :: string
  loginPassword :: string
  loginError :: string
  workouts :: "obj list"
  savedLocations :: "obj list"
  userData :: "obj option"
  editUsername :: val
  currentLocation :: "location option"
  locationLoading :: bool
  locationError :: string
  showAddWorkout :: bool
  newWorkout :: obj

text \<open>\<^verbatim>\<open>AuthService.login\<close> (lines 418-425): the catch block logs and throws the error again.\<close>

definition AuthService_login :: "string \<Rightarrow> string \<Rightarrow> env \<Rightarrow> (error + unit) \<times> env" where
  "AuthService_login em pw e =
     (case signInWithEmailAndPassword em pw e of
        (Inl err, e') \<Rightarrow> (Inl err, e')
      | (Inr u, e') \<Rightarrow> (Inr (), e'))"

text \<open>\<^verbatim>\<open>AppComponent.getAuthErrorMessage\<close> (lines 301-320).\<close>

definition AppComponent_getAuthErrorMessage :: "error \<Rightarrow> string" where
  "AppComponent_getAuthErrorMessage err =
     (let code = error_code err in
      if code = Some ''auth/invalid-email'' then ''Invalid email address.''
      else if code = Some ''auth/user-disabled'' then ''This account has been disabled.''
      else if code = Some ''auth/user-not-found'' then ''No account found with this email.''
      else if code = Some ''auth/wrong-password'' then ''Incorrect password.''
      else if code = Some ''auth/email-already-in-use'' then ''An account with this email already exists.''
      else if code = Some ''auth/weak-password'' then ''Password should be at least 6 characters.''
      else if code = Some ''auth/network-request-failed'' then ''Network error. Please check your connection.''
      else ''An error occurred. Please try again.'')"

text \<open>
  \<^verbatim>\<open>AppComponent.onLogin\<close> (lines 85-94). The reaction of the session stream to an
  accepted sign-in is a separate step.
\<close>

definition AppComponent_onLogin :: "app \<Rightarrow> env \<Rightarrow> app \<times> env" where
  "AppComponent_onLogin s e =
     (let s1 = s\<lparr>loginError := []\<rparr> in
      case AuthService_login (loginEmail s1) (loginPassword s1) e of
        (Inr u, e') \<Rightarrow> (s1\<lparr>loginEmail := [], loginPassword := []\<rparr>, e')
      | (Inl err, e') \<Rightarrow> (s1\<lparr>loginError := AppComponent_getAuthErrorMessage err\<rparr>, e'))"

section \<open>Service variant: the facade\<close>

text \<open>
  Every method of \<^verbatim>\<open>AuthService\<close> wraps its body in a try block whose catch logs the
  error and throws it again: an error of the store is the method's error.

  \<^verbatim>\<open>x?.toDate ? x.toDate() : x\<close>: a timestamp becomes a date, anything else stays.
\<close>

fun toDate_or_self :: "val option \<Rightarrow> val option" where
  "toDate_or_self (Some (VTimestamp t)) = Some (VDate t)"
| "toDate_or_self x = x"

text \<open>\<^verbatim>\<open>AuthService.getUserData\<close> (lines 438-459).\<close>

definition AuthService_user :: "obj \<Rightarrow> obj" where
  "AuthService_user data =
     (\<lambda>k. if k = ''uid'' \<or> k = ''email'' \<or> k = ''username'' \<or> k = ''displayName'' then data k
          else if k = ''createdAt'' then toDate_or_self (data ''createdAt'')
          else None)"

definition AuthService_getUserData :: "string \<Rightarrow> env \<Rightarrow> (error + obj option) \<times> env" where
  "AuthService_getUserData userId e =
     (case getDoc [''users''] userId e of
        (Inl err, e') \<Rightarrow> (Inl err, e')
      | (Inr None, e') \<Rightarrow> (Inr None, e')
      | (Inr (Some data), e') \<Rightarrow> (Inr (Some (AuthService_user data)), e'))"

text \<open>\<^verbatim>\<open>AuthService.updateUserProfile\<close> (lines 461-479).\<close>

definition AuthService_updateUserProfile :: "string \<Rightarrow> string \<Rightarrow> env \<Rightarrow> (error + unit) \<times> env" where
  "AuthService_updateUserProfile userId username e =
     (case (if currentUser e \<noteq> None then updateProfile username e else (Inr (), e)) of
        (Inl err, e') \<Rightarrow> (Inl err, e')
      | (Inr u, e') \<Rightarrow>
          setDoc_merge [''users''] userId
            [''username'' \<mapsto> VStr username, ''displayName'' \<mapsto> VStr username] e')"

text \<open>\<^verbatim>\<open>AuthService.loadWorkouts\<close> (lines 482-504).\<close>

definition AuthService_workout :: "string \<times> obj \<Rightarrow> obj" where
  "AuthService_workout d =
     ([''id'' \<mapsto> VStr (fst d)] ++ snd d)(''date'' := toDate_or_self (snd d ''date''))"

definition AuthService_loadWorkouts :: "string \<Rightarrow> env \<Rightarrow> (error + obj list) \<times> env" where
  "AuthService_loadWorkouts userId e =
     (case getDocs (OrderBy [''users'', userId, ''workouts''] ''date'' Desc) e of
        (Inl err, e') \<Rightarrow> (Inl err, e')
      | (Inr docs, e') \<Rightarrow> (Inr (map AuthService_workout docs), e'))"

text \<open>\<^verbatim>\<open>AuthService.addWorkout\<close> (lines 506-521).\<close>

definition AuthService_addWorkout :: "string \<Rightarrow> obj \<Rightarrow> env \<Rightarrow> (error + string) \<times> env" where
  "AuthService_addWorkout userId workout e =
     (case new_Date e of
        (now, e1) \<Rightarrow> addDoc [''users'', userId, ''workouts''] (workout(''date'' \<mapsto> VDate now)) e1)"

text \<open>\<^verbatim>\<open>AuthService.deleteWorkout\<close> (lines 523-531).\<close>

definition AuthService_deleteWorkout :: "string \<Rightarrow> string \<Rightarrow> env \<Rightarrow> (error + unit) \<times> env" where
  "AuthService_deleteWorkout userId workoutId e =
     (case doc [''users'', userId, ''workouts'', workoutId] of
        Inl err \<Rightarrow> (Inl err, e)
      | Inr (p, i) \<Rightarrow> deleteDoc p i e)"

text \<open>\<^verbatim>\<open>AuthService.loadLocations\<close> (lines 534-557).\<close>

definition AuthService_location :: "string \<times> obj \<Rightarrow> obj" where
  "AuthService_location d =
     ([''id'' \<mapsto> VStr (fst d)] ++ snd d)
       (''timestamp'' := toDate_or_self (snd d ''timestamp''),
        ''savedAt'' := toDate_or_self (snd d ''savedAt''))"

definition AuthService_loadLocations :: "string \<Rightarrow> env \<Rightarrow> (error + obj list) \<times> env" where
  "AuthService_loadLocations userId e =
     (case getDocs (OrderBy [''users'', userId, ''locations''] ''savedAt'' Desc) e of
        (Inl err, e') \<Rightarrow> (Inl err, e')
      | (Inr docs, e') \<Rightarrow> (Inr (map AuthService_location docs), e'))"

text \<open>\<^verbatim>\<open>AuthService.saveLocation\<close> (lines 559-574).\<close>

definition AuthService_saveLocation :: "string \<Rightarrow> obj \<Rightarrow> env \<Rightarrow> (error + string) \<times> env" where
  "AuthService_saveLocation userId loc e =
     (case new_Date e of
        (now, e1) \<Rightarrow> addDoc [''users'', userId, ''locations''] (loc(''savedAt'' \<mapsto> VDate now)) e1)"

text \<open>\<^verbatim>\<open>AuthService.deleteLocation\<close> (lines 576-584).\<close>

definition AuthService_deleteLocation :: "string \<Rightarrow> string \<Rightarrow> env \<Rightarrow> (error + unit) \<times> env" where
  "AuthService_deleteLocation userId locationId e =
     (case doc [''users'', userId, ''locations'', locationId] of
        Inl err \<Rightarrow> (Inl err, e)
      | Inr (p, i) \<Rightarrow> deleteDoc p i e)"

section \<open>Service variant: the controller\<close>

text \<open>
  \<^verbatim>\<open>const user = this.userData(); if (!user?.uid) return;\<close> and the use of
  \<^verbatim>\<open>user.uid\<close> as the user's identifier. The field comes from a document, so it can be
  any value. A value that is not truthy makes the method return. A truthy value that
  is not a string is refused by \<^verbatim>\<open>doc\<close> inside the facade's try block, before any remote
  call, and the catch blocks of these methods only log. In both cases nothing changes:
  \<open>None\<close>.
\<close>

definition uid_of :: "obj option \<Rightarrow> string option" where
  "uid_of user =
     (case user of
        None \<Rightarrow> None
      | Some u \<Rightarrow> (case u ''uid'' of Some (VStr x) \<Rightarrow> if x \<noteq> [] then Some x else None | _ \<Rightarrow> None))"

text \<open>\<^verbatim>\<open>AppComponent.loadWorkouts\<close> (lines 124-134) and \<^verbatim>\<open>loadLocations\<close> (lines 136-146).\<close>

definition AppComponent_loadWorkouts :: "app \<Rightarrow> env \<Rightarrow> app \<times> env" where
  "AppComponent_loadWorkouts s e =
     (case uid_of (userData s) of
        None \<Rightarrow> (s, e)
      | Some u \<Rightarrow>
          (case AuthService_loadWorkouts u e of
             (Inr ws, e') \<Rightarrow> (s\<lparr>workouts := ws\<rparr>, e')
           | (Inl err, e') \<Rightarrow> (s, e')))"

definition AppComponent_loadLocations :: "app \<Rightarrow> env \<Rightarrow> app \<times> env" where
  "AppComponent_loadLocations s e =
     (case uid_of (userData s) of
        None \<Rightarrow> (s, e)
      | Some u \<Rightarrow>
          (case AuthService_loadLocations u e of
             (Inr ls, e') \<Rightarrow> (s\<lparr>savedLocations := ls\<rparr>, e')
           | (Inl err, e') \<Rightarrow> (s, e')))"

text \<open>
  \<^verbatim>\<open>AppComponent.loadUserData\<close> (lines 252-257): the two loads are started together;
  they write different signals, so one after the other gives the same state.
\<close>

definition AppComponent_loadUserData :: "app \<Rightarrow> env \<Rightarrow> app \<times> env" where
  "AppComponent_loadUserData s e =
     (case AppComponent_loadWorkouts s e of (s1, e1) \<Rightarrow> AppComponent_loadLocations s1 e1)"

text \<open>The callback of the subscription to the session stream (constructor, lines 61-81).\<close>

definition AppComponent_on_user :: "auth_user option \<Rightarrow> app \<Rightarrow> env \<Rightarrow> app \<times> env" where
  "AppComponent_on_user firebaseUser s e =
     (case firebaseUser of
        Some fu \<Rightarrow>
          (case (case AuthService_getUserData (uid fu) e of
                   (Inr ud, e') \<Rightarrow>
                     (s\<lparr>userData := ud,
                        editUsername := js_or (case ud of None \<Rightarrow> None | Some u \<Rightarrow> u ''username'') (VStr [])\<rparr>, e')
                 | (Inl err, e') \<Rightarrow> (s, e')) of
             (s1, e1) \<Rightarrow> AppComponent_loadUserData s1 e1)
      | None \<Rightarrow> (s\<lparr>workouts := [], savedLocations := [], userData := None\<rparr>, e))"

text \<open>\<^verbatim>\<open>AppComponent.addWorkout\<close> (lines 148-160).\<close>

definition AppComponent_addWorkout :: "app \<Rightarrow> env \<Rightarrow> app \<times> env" where
  "AppComponent_addWorkout s e =
     (case uid_of (userData s) of
        None \<Rightarrow> (s, e)
      | Some u \<Rightarrow>
          (case AuthService_addWorkout u (newWorkout s) e of
             (Inl err, e') \<Rightarrow> (s, e')
           | (Inr i, e') \<Rightarrow>
               (case new_Date e' of
                  (now, e2) \<Rightarrow>
                    AppComponent_loadWorkouts
                      (s\<lparr>showAddWorkout := False,
                         newWorkout := [''name'' \<mapsto> VStr [], ''type'' \<mapsto> VStr [], ''duration'' \<mapsto> VNum 0,
                                        ''notes'' \<mapsto> VStr [], ''date'' \<mapsto> VDate now]\<rparr>) e2)))"

text \<open>\<^verbatim>\<open>AppComponent.deleteWorkout\<close> (lines 162-172).\<close>

definition AppComponent_deleteWorkout :: "string \<Rightarrow> app \<Rightarrow> env \<Rightarrow> app \<times> env" where
  "AppComponent_deleteWorkout workoutId s e =
     (case uid_of (userData s) of
        None \<Rightarrow> (s, e)
      | Some u \<Rightarrow>
          (case AuthService_deleteWorkout u workoutId e of
             (Inl err, e') \<Rightarrow> (s, e')
           | (Inr x, e') \<Rightarrow> AppComponent_loadWorkouts s e'))"

text \<open>\<^verbatim>\<open>AppComponent.saveLocation\<close> (lines 174-186).\<close>

definition AppComponent_saveLocation :: "app \<Rightarrow> env \<Rightarrow> app \<times> env" where
  "AppComponent_saveLocation s e =
     (case (uid_of (userData s), currentLocation s) of
        (Some u, Some l) \<Rightarrow>
          (case AuthService_saveLocation u (location_obj l) e of
             (Inl err, e') \<Rightarrow> (s, e')
           | (Inr i, e') \<Rightarrow> AppComponent_loadLocations (s\<lparr>currentLocation := None\<rparr>) e')
      | _ \<Rightarrow> (s, e))"

text \<open>\<^verbatim>\<open>AppComponent.deleteLocation\<close> (lines 188-198).\<close>

definition AppComponent_deleteLocation :: "string \<Rightarrow> app \<Rightarrow> env \<Rightarrow> app \<times> env" where
  "AppComponent_deleteLocation locationId s e =
     (case uid_of (userData s) of
        None \<Rightarrow> (s, e)
      | Some u \<Rightarrow>
          (case AuthService_deleteLocation u locationId e of
             (Inl err, e') \<Rightarrow> (s, e')
           | (Inr x, e') \<Rightarrow> AppComponent_loadLocations s e'))"

text \<open>\<^verbatim>\<open>AppComponent.getLocationErrorMessage\<close> (lines 288-299), on the error's code.\<close>

definition AppComponent_getLocationErrorMessage :: "nat \<Rightarrow> string" where
  "AppComponent_getLocationErrorMessage code =
     (if code = 1 then ''Location access denied. Please enable location permissions.''
      else if code = 2 then ''Location information unavailable.''
      else if code = 3 then ''Location request timed out.''
      else ''An unknown error occurred while getting location.'')"

text \<open>
  \<^verbatim>\<open>AppComponent.getCurrentLocation\<close> (lines 221-249): the request is made with the two
  callbacks and no options.
\<close>

definition AppComponent_getCurrentLocation :: "app \<Rightarrow> env \<Rightarrow> app \<times> env" where
  "AppComponent_getCurrentLocation s e =
     (let s1 = s\<lparr>locationLoading := True, locationError := []\<rparr> in
      if \<not> geolocation e
      then (s1\<lparr>locationError := ''Geolocation is not supported by this browser.'',
               locationLoading := False\<rparr>, e)
      else case getCurrentPosition None e of
             (Inr pos, e1) \<Rightarrow>
               (case new_Date e1 of
                  (now, e2) \<Rightarrow>
                    (s1\<lparr>currentLocation :=
                           Some \<lparr>loc_id = [], loc_latitude = latitude pos, loc_longitude = longitude pos,
                                 loc_accuracy = accuracy pos, loc_timestamp = timestamp pos,
                                 loc_savedAt = now\<rparr>,
                         locationLoading := False\<rparr>, e2))
           | (Inl code, e1) \<Rightarrow>
               (s1\<lparr>locationError := AppComponent_getLocationErrorMessage code,
                   locationLoading := False\<rparr>, e1))"

section \<open>Monolithic variant: sign-in\<close>

text \<open>The fields and signals of the monolithic \<^verbatim>\<open>AppComponent\<close> (part_000, lines 41-88).\<close>

record p0_app =
  p0_loginEmail :: string
  p0_loginPassword :: string
  p0_registerUsername :: string
  p0_loginError :: string
  p0_workouts :: "obj list"
  p0_showAddWorkout :: bool
  p0_newWorkout :: obj
  p0_currentLocation :: "location option"
  p0_savedLocations :: "obj list"
  p0_locationLoading :: bool
  p0_locationError :: string
  p0_userProfile :: "obj option"
  p0_editUsername :: string
  p0_isPremium :: val

text \<open>\<^verbatim>\<open>getAuthErrorMessage\<close> (part_000, lines 638-659).\<close>

definition p0_getAuthErrorMessage :: "error \<Rightarrow> string" where
  "p0_getAuthErrorMessage err =
     (let errorCode = error_code err in
      if errorCode = Some ''auth/invalid-email'' then ''Invalid email address''
      else if errorCode = Some ''auth/user-disabled'' then ''This account has been disabled''
      else if errorCode = Some ''auth/user-not-found'' then ''No account found with this email''
      else if errorCode = Some ''auth/wrong-password'' then ''Incorrect password''
      else if errorCode = Some ''auth/email-already-in-use'' then ''An account with this email already exists''
      else if errorCode = Some ''auth/weak-password'' then ''Password is too weak''
      else if errorCode = Some ''auth/network-request-failed'' then ''Network error. Please check your connection''
      else ''An error occurred. Please try again'')"

text \<open>\<^verbatim>\<open>onLogin\<close> (part_000, lines 254-281).\<close>

definition p0_onLogin :: "p0_app \<Rightarrow> env \<Rightarrow> p0_app \<times> env" where
  "p0_onLogin s e =
     (let s1 = s\<lparr>p0_loginError := []\<rparr> in
      if p0_loginEmail s1 = [] \<or> p0_loginPassword s1 = []
      then (s1\<lparr>p0_loginError := ''Please enter both email and password''\<rparr>, e)
      else case signInWithEmailAndPassword (p0_loginEmail s1) (p0_loginPassword s1) e of
        (Inr u, e') \<Rightarrow> (s1\<lparr>p0_loginEmail := [], p0_loginPassword := []\<rparr>, e')
      | (Inl err, e') \<Rightarrow> (s1\<lparr>p0_loginError := p0_getAuthErrorMessage err\<rparr>, e'))"

section \<open>Monolithic variant: the profile\<close>

text \<open>
  String helpers of \<^verbatim>\<open>createUserProfile\<close>. A string is a list of 8-bit characters, so
  the white space that \<^verbatim>\<open>trim\<close> removes is tab, line feed, vertical tab, form feed,
  carriage return, space and no-break space.
\<close>

definition is_space :: "char \<Rightarrow> bool" where
  "is_space c = (of_char c \<in> {9, 10, 11, 12, 13, 32, 160 :: nat})"

definition trim :: "string \<Rightarrow> string" where
  "trim s = rev (dropWhile is_space (rev (dropWhile is_space s)))"

definition is_letter :: "char \<Rightarrow> bool" where
  "is_letter c = ((CHR ''a'' \<le> c \<and> c \<le> CHR ''z'') \<or> (CHR ''A'' \<le> c \<and> c \<le> CHR ''Z''))"

definition toUpperCase :: "char \<Rightarrow> char" where
  "toUpperCase c = (if CHR ''a'' \<le> c \<and> c \<le> CHR ''z'' then char_of (of_char c - (32::nat)) else c)"

definition toLowerCase :: "char \<Rightarrow> char" where
  "toLowerCase c = (if CHR ''A'' \<le> c \<and> c \<le> CHR ''Z'' then char_of (of_char c + (32::nat)) else c)"

text \<open>
  The user name that \<^verbatim>\<open>createUserProfile\<close> chooses (part_000, lines 165-189): the
  registration form's name, else the provider's display name, else the part of the
  email before the at sign when it is made of letters only, else "User".
\<close>

definition p0_username :: "string \<Rightarrow> auth_user \<Rightarrow> string" where
  "p0_username registerUsername user =
     (if trim registerUsername \<noteq> [] then trim registerUsername
      else if (case displayName user of Some d \<Rightarrow> trim d \<noteq> [] | None \<Rightarrow> False)
      then (case displayName user of Some d \<Rightarrow> trim d | None \<Rightarrow> ''User'')
      else if (case email user of Some em \<Rightarrow> em \<noteq> [] | None \<Rightarrow> False)
      then (let emailName = takeWhile (\<lambda>c. c \<noteq> CHR ''@'') (case email user of Some em \<Rightarrow> em | None \<Rightarrow> [])
            in if emailName \<noteq> [] \<and> list_all is_letter emailName
               then toUpperCase (hd emailName) # map toLowerCase (tl emailName)
               else ''User'')
      else ''User'')"

text \<open>\<^verbatim>\<open>createUserProfile\<close> (part_000, lines 157-222).\<close>

definition p0_createUserProfile :: "string \<Rightarrow> p0_app \<Rightarrow> env \<Rightarrow> p0_app \<times> env" where
  "p0_createUserProfile userId s e =
     (case currentUser e of
        None \<Rightarrow> (s, e)
      | Some user \<Rightarrow>
          (case new_Date e of
             (now, e1) \<Rightarrow>
               (let userProfile =
                      [''id'' \<mapsto> VStr userId,
                       ''username'' \<mapsto> VStr (p0_username (p0_registerUsername s) user),
                       ''email'' \<mapsto> VStr (case email user of Some em \<Rightarrow> em | None \<Rightarrow> []),
                       ''isPremium'' \<mapsto> VBool False,
                       ''memberSince'' \<mapsto> VDate now]
                in case setDoc [''users''] userId userProfile e1 of
                     (Inr x, e2) \<Rightarrow>
                       (s\<lparr>p0_userProfile := Some userProfile, p0_isPremium := VBool False\<rparr>, e2)
                   | (Inl err, e2) \<Rightarrow>
                       (case new_Date e2 of
                          (now2, e3) \<Rightarrow>
                            (s\<lparr>p0_userProfile :=
                                 Some [''id'' \<mapsto> VStr userId, ''username'' \<mapsto> VStr ''Marwan'',
                                       ''email'' \<mapsto> VStr [], ''isPremium'' \<mapsto> VBool False,
                                       ''memberSince'' \<mapsto> VDate now2]\<rparr>, e3)))))"

text \<open>
  The two objects that \<^verbatim>\<open>createUserProfile\<close> builds, by name: the profile of lines
  191-197 and the fallback of lines 213-219, each with the clock reading it is given.
\<close>

definition p0_default_profile :: "string \<Rightarrow> string \<Rightarrow> auth_user \<Rightarrow> int \<Rightarrow> obj" where
  "p0_default_profile userId registerUsername user now =
     [''id'' \<mapsto> VStr userId,
      ''username'' \<mapsto> VStr (p0_username registerUsername user),
      ''email'' \<mapsto> VStr (case email user of Some em \<Rightarrow> em | None \<Rightarrow> []),
      ''isPremium'' \<mapsto> VBool False,
      ''memberSince'' \<mapsto> VDate now]"

definition p0_fallback_profile :: "string \<Rightarrow> int \<Rightarrow> obj" where
  "p0_fallback_profile userId now =
     [''id'' \<mapsto> VStr userId, ''username'' \<mapsto> VStr ''Marwan'', ''email'' \<mapsto> VStr [],
      ''isPremium'' \<mapsto> VBool False, ''memberSince'' \<mapsto> VDate now]"

text \<open>
  \<^verbatim>\<open>loadUserProfile\<close> (part_000, lines 111-153): a read of the whole collection whose
  result is not used, a first lookup inside its own try block, and a second, equal
  lookup when the first found nothing or failed.
\<close>

definition p0_set_profile :: "obj \<Rightarrow> p0_app \<Rightarrow> p0_app" where
  "p0_set_profile profile s =
     s\<lparr>p0_userProfile := Some profile, p0_isPremium := js_or (profile ''isPremium'') (VBool False)\<rparr>"

text \<open>
  The method up to its first await, the read of the whole collection (line 115), and
  from the answer to it on.
\<close>

definition p0_loadUserProfile_request :: "env \<Rightarrow> (error + (string \<times> obj) list) \<times> env" where
  "p0_loadUserProfile_request e = getDocs (Collection [''users'']) e"

definition p0_loadUserProfile_answered ::
    "string \<Rightarrow> error + (string \<times> obj) list \<Rightarrow> p0_app \<Rightarrow> env \<Rightarrow> p0_app \<times> env" where
  "p0_loadUserProfile_answered userId r0 s e =
     (case r0 of
        Inl err \<Rightarrow> p0_createUserProfile userId s e
      | Inr userDoc \<Rightarrow>
          (case getDocs (Where [''users''] ''id'' (VStr userId)) e of
             (Inr (d # ds), e2) \<Rightarrow> (p0_set_profile (snd d) s, e2)
           | (r, e2) \<Rightarrow>
               (case getDocs (Where [''users''] ''id'' (VStr userId)) e2 of
                  (Inl err, e3) \<Rightarrow> p0_createUserProfile userId s e3
                | (Inr [], e3) \<Rightarrow> p0_createUserProfile userId s e3
                | (Inr (d # ds), e3) \<Rightarrow> (p0_set_profile (snd d) s, e3))))"

definition p0_loadUserProfile :: "string \<Rightarrow> p0_app \<Rightarrow> env \<Rightarrow> p0_app \<times> env" where
  "p0_loadUserProfile userId s e =
     (case p0_loadUserProfile_request e of (r0, e1) \<Rightarrow> p0_loadUserProfile_answered userId r0 s e1)"

text \<open>\<^verbatim>\<open>updateUserProfile\<close> (part_000, lines 225-251).\<close>

definition p0_updateUserProfile :: "obj \<Rightarrow> p0_app \<Rightarrow> env \<Rightarrow> p0_app \<times> env" where
  "p0_updateUserProfile updates s e =
     (case (currentUser e, p0_userProfile s) of
        (Some user, Some currentProfile) \<Rightarrow>
          (case updateDoc [''users''] (uid user) updates e of
             (Inr x, e') \<Rightarrow> (s\<lparr>p0_userProfile := Some (currentProfile ++ updates)\<rparr>, e')
           | (Inl err, e') \<Rightarrow> (s, e'))
      | _ \<Rightarrow> (s, e))"

section \<open>Monolithic variant: workouts and locations\<close>

text \<open>
  \<^verbatim>\<open>x?.toDate() || new Date()\<close>: a timestamp becomes a date; \<^verbatim>\<open>undefined\<close> and
  \<^verbatim>\<open>null\<close> give the current time; any other value has no \<^verbatim>\<open>toDate\<close> and the call
  throws.
\<close>

fun p0_toDate :: "val option \<Rightarrow> env \<Rightarrow> (error + val) \<times> env" where
  "p0_toDate (Some (VTimestamp t)) e = (Inr (VDate t), e)"
| "p0_toDate None e = (case new_Date e of (now, e1) \<Rightarrow> (Inr (VDate now), e1))"
| "p0_toDate (Some VNull) e = (case new_Date e of (now, e1) \<Rightarrow> (Inr (VDate now), e1))"
| "p0_toDate (Some v) e = (Inl TypeError, e)"

text \<open>The body of the \<^verbatim>\<open>forEach\<close> of \<^verbatim>\<open>loadWorkouts\<close> (part_000, lines 356-366), and the loop.\<close>

definition p0_workout :: "string \<times> obj \<Rightarrow> env \<Rightarrow> (error + obj) \<times> env" where
  "p0_workout d e =
     (case p0_toDate (snd d ''date'') e of
        (Inl err, e1) \<Rightarrow> (Inl err, e1)
      | (Inr date, e1) \<Rightarrow>
          (Inr [''id'' \<mapsto> VStr (fst d),
                ''name'' \<mapsto> js_or (snd d ''name'') (VStr []),
                ''type'' \<mapsto> js_or (snd d ''type'') (VStr []),
                ''duration'' \<mapsto> js_or (snd d ''duration'') (VNum 0),
                ''notes'' \<mapsto> js_or (snd d ''notes'') (VStr []),
                ''date'' \<mapsto> date], e1))"

fun p0_workoutsData :: "(string \<times> obj) list \<Rightarrow> env \<Rightarrow> (error + obj list) \<times> env" where
  "p0_workoutsData [] e = (Inr [], e)"
| "p0_workoutsData (d # ds) e =
     (case p0_workout d e of
        (Inl err, e1) \<Rightarrow> (Inl err, e1)
      | (Inr w, e1) \<Rightarrow>
          (case p0_workoutsData ds e1 of
             (Inl err, e2) \<Rightarrow> (Inl err, e2)
           | (Inr ws, e2) \<Rightarrow> (Inr (w # ws), e2)))"

text \<open>
  \<^verbatim>\<open>loadWorkouts\<close> (part_000, lines 341-374), in two parts: up to its await, where
  it has either returned (no current user) or issued the query, and from the answer
  on, the rest of the try block or the catch block.
\<close>

definition p0_loadWorkouts_request ::
    "p0_app \<Rightarrow> env \<Rightarrow> (p0_app \<times> (error + (string \<times> obj) list) option) \<times> env" where
  "p0_loadWorkouts_request s e =
     (case currentUser e of
        None \<Rightarrow> ((s\<lparr>p0_workouts := []\<rparr>, None), e)
      | Some user \<Rightarrow>
          (case getDocs (OrderBy [''users'', uid user, ''workouts''] ''date'' Desc) e of
             (r, e1) \<Rightarrow> ((s, Some r), e1)))"

definition p0_loadWorkouts_answered ::
    "(error + (string \<times> obj) list) option \<Rightarrow> p0_app \<Rightarrow> env \<Rightarrow> p0_app \<times> env" where
  "p0_loadWorkouts_answered w s e =
     (case w of
        None \<Rightarrow> (s, e)
      | Some (Inl err) \<Rightarrow> (s\<lparr>p0_workouts := []\<rparr>, e)
      | Some (Inr docs) \<Rightarrow>
          (case p0_workoutsData docs e of
             (Inl err, e2) \<Rightarrow> (s\<lparr>p0_workouts := []\<rparr>, e2)
           | (Inr workoutsData, e2) \<Rightarrow> (s\<lparr>p0_workouts := workoutsData\<rparr>, e2)))"

definition p0_loadWorkouts :: "p0_app \<Rightarrow> env \<Rightarrow> p0_app \<times> env" where
  "p0_loadWorkouts s e =
     (case p0_loadWorkouts_request s e of ((s1, w), e1) \<Rightarrow> p0_loadWorkouts_answered w s1 e1)"

text \<open>\<^verbatim>\<open>addWorkout\<close> (part_000, lines 376-414).\<close>

definition p0_addWorkout :: "p0_app \<Rightarrow> env \<Rightarrow> p0_app \<times> env" where
  "p0_addWorkout s e =
     (case currentUser e of
        None \<Rightarrow> (s, e)
      | Some user \<Rightarrow>
          (case new_Date e of
             (now, e1) \<Rightarrow>
               (let workoutData =
                      [''name'' \<mapsto> js_or (p0_newWorkout s ''name'') (VStr []),
                       ''type'' \<mapsto> js_or (p0_newWorkout s ''type'') (VStr []),
                       ''duration'' \<mapsto> js_or (p0_newWorkout s ''duration'') (VNum 0),
                       ''notes'' \<mapsto> js_or (p0_newWorkout s ''notes'') (VStr []),
                       ''date'' \<mapsto> VDate now]
                in case addDoc [''users'', uid user, ''workouts''] workoutData e1 of
                     (Inl err, e2) \<Rightarrow> (s, e2)
                   | (Inr i, e2) \<Rightarrow>
                       (case p0_loadWorkouts s e2 of
                          (s3, e3) \<Rightarrow>
                            (case new_Date e3 of
                               (now2, e4) \<Rightarrow>
                                 (s3\<lparr>p0_showAddWorkout := False,
                                     p0_newWorkout :=
                                       [''name'' \<mapsto> VStr [], ''type'' \<mapsto> VStr [], ''duration'' \<mapsto> VNum 0,
                                        ''notes'' \<mapsto> VStr [], ''date'' \<mapsto> VDate now2]\<rparr>, e4))))))"

text \<open>\<^verbatim>\<open>deleteWorkout\<close> (part_000, lines 416-432).\<close>

definition p0_deleteWorkout :: "string \<Rightarrow> p0_app \<Rightarrow> env \<Rightarrow> p0_app \<times> env" where
  "p0_deleteWorkout workoutId s e =
     (case currentUser e of
        None \<Rightarrow> (s, e)
      | Some user \<Rightarrow>
          (case doc [''users'', uid user, ''workouts'', workoutId] of
             Inl err \<Rightarrow> (s, e)
           | Inr (p, i) \<Rightarrow>
               (case deleteDoc p i e of
                  (Inl err, e1) \<Rightarrow> (s, e1)
                | (Inr x, e1) \<Rightarrow> p0_loadWorkouts s e1)))"

text \<open>The body of the \<^verbatim>\<open>forEach\<close> of \<^verbatim>\<open>loadSavedLocations\<close> (part_000, lines 450-460), and the loop.\<close>

definition p0_location :: "string \<times> obj \<Rightarrow> env \<Rightarrow> (error + obj) \<times> env" where
  "p0_location d e =
     (case p0_toDate (snd d ''timestamp'') e of
        (Inl err, e1) \<Rightarrow> (Inl err, e1)
      | (Inr ts, e1) \<Rightarrow>
          (case p0_toDate (snd d ''savedAt'') e1 of
             (Inl err, e2) \<Rightarrow> (Inl err, e2)
           | (Inr sa, e2) \<Rightarrow>
               (Inr [''id'' \<mapsto> VStr (fst d),
                     ''latitude'' \<mapsto> js_or (snd d ''latitude'') (VNum 0),
                     ''longitude'' \<mapsto> js_or (snd d ''longitude'') (VNum 0),
                     ''accuracy'' \<mapsto> js_or (snd d ''accuracy'') (VNum 0),
                     ''timestamp'' \<mapsto> ts,
                     ''savedAt'' \<mapsto> sa], e2)))"

fun p0_locationsData :: "(string \<times> obj) list \<Rightarrow> env \<Rightarrow> (error + obj list) \<times> env" where
  "p0_locationsData [] e = (Inr [], e)"
| "p0_locationsData (d # ds) e =
     (case p0_location d e of
        (Inl err, e1) \<Rightarrow> (Inl err, e1)
      | (Inr l, e1) \<Rightarrow>
          (case p0_locationsData ds e1 of
             (Inl err, e2) \<Rightarrow> (Inl err, e2)
           | (Inr ls, e2) \<Rightarrow> (Inr (l # ls), e2)))"

text \<open>\<^verbatim>\<open>loadSavedLocations\<close> (part_000, lines 435-468), in the same two parts.\<close>

definition p0_loadSavedLocations_request ::
    "p0_app \<Rightarrow> env \<Rightarrow> (p0_app \<times> (error + (string \<times> obj) list) option) \<times> env" where
  "p0_loadSavedLocations_request s e =
     (case currentUser e of
        None \<Rightarrow> ((s\<lparr>p0_savedLocations := []\<rparr>, None), e)
      | Some user \<Rightarrow>
          (case getDocs (OrderBy [''users'', uid user, ''locations''] ''savedAt'' Desc) e of
             (r, e1) \<Rightarrow> ((s, Some r), e1)))"

definition p0_loadSavedLocations_answered ::
    "(error + (string \<times> obj) list) option \<Rightarrow> p0_app \<Rightarrow> env \<Rightarrow> p0_app \<times> env" where
  "p0_loadSavedLocations_answered l s e =
     (case l of
        None \<Rightarrow> (s, e)
      | Some (Inl err) \<Rightarrow> (s\<lparr>p0_savedLocations := []\<rparr>, e)
      | Some (Inr docs) \<Rightarrow>
          (case p0_locationsData docs e of
             (Inl err, e2) \<Rightarrow> (s\<lparr>p0_savedLocations := []\<rparr>, e2)
           | (Inr locationsData, e2) \<Rightarrow> (s\<lparr>p0_savedLocations := locationsData\<rparr>, e2)))"

definition p0_loadSavedLocations :: "p0_app \<Rightarrow> env \<Rightarrow> p0_app \<times> env" where
  "p0_loadSavedLocations s e =
     (case p0_loadSavedLocations_request s e of
        ((s1, l), e1) \<Rightarrow> p0_loadSavedLocations_answered l s1 e1)"

text \<open>\<^verbatim>\<open>saveLocation\<close> (part_000, lines 470-500).\<close>

definition p0_saveLocation :: "p0_app \<Rightarrow> env \<Rightarrow> p0_app \<times> env" where
  "p0_saveLocation s e =
     (case (currentUser e, p0_currentLocation s) of
        (Some user, Some cl) \<Rightarrow>
          (case new_Date e of
             (now, e1) \<Rightarrow>
               (let locationData =
                      [''latitude'' \<mapsto> VNum (loc_latitude cl),
                       ''longitude'' \<mapsto> VNum (loc_longitude cl),
                       ''accuracy'' \<mapsto> VNum (loc_accuracy cl),
                       ''timestamp'' \<mapsto> VDate (loc_timestamp cl),
                       ''savedAt'' \<mapsto> VDate now]
                in case addDoc [''users'', uid user, ''locations''] locationData e1 of
                     (Inl err, e2) \<Rightarrow> (s, e2)
                   | (Inr i, e2) \<Rightarrow> p0_loadSavedLocations s e2))
      | _ \<Rightarrow> (s, e))"

text \<open>\<^verbatim>\<open>deleteLocation\<close> (part_000, lines 502-518).\<close>

definition p0_deleteLocation :: "string \<Rightarrow> p0_app \<Rightarrow> env \<Rightarrow> p0_app \<times> env" where
  "p0_deleteLocation locationId s e =
     (case currentUser e of
        None \<Rightarrow> (s, e)
      | Some user \<Rightarrow>
          (case doc [''users'', uid user, ''locations'', locationId] of
             Inl err \<Rightarrow> (s, e)
           | Inr (p, i) \<Rightarrow>
               (case deleteDoc p i e of
                  (Inl err, e1) \<Rightarrow> (s, e1)
                | (Inr x, e1) \<Rightarrow> p0_loadSavedLocations s e1)))"

text \<open>
  \<^verbatim>\<open>getLocationError\<close> (part_000, lines 703-714). The switch compares
  \<^verbatim>\<open>error.code\<close> with \<^verbatim>\<open>error.PERMISSION_DENIED\<close> first: an error that is not the
  device's has neither property, and \<^verbatim>\<open>undefined === undefined\<close> selects the first case.
\<close>

fun p0_getLocationError :: "error \<Rightarrow> string" where
  "p0_getLocationError (GeoError code) =
     (if code = 1 then ''Location access denied. Please enable location permissions.''
      else if code = 2 then ''Location information unavailable.''
      else if code = 3 then ''Location request timed out.''
      else ''An unknown error occurred while getting location.'')"
| "p0_getLocationError err = ''Location access denied. Please enable location permissions.''"

text \<open>
  \<^verbatim>\<open>getCurrentLocation\<close> (part_000, lines 521-551). Without
  \<^verbatim>\<open>navigator.geolocation\<close> the call inside the promise throws a \<^verbatim>\<open>TypeError\<close>, which
  the catch block receives.
\<close>

definition p0_getCurrentLocation :: "p0_app \<Rightarrow> env \<Rightarrow> p0_app \<times> env" where
  "p0_getCurrentLocation s e =
     (let s1 = s\<lparr>p0_locationLoading := True, p0_locationError := []\<rparr> in
      if \<not> geolocation e
      then (s1\<lparr>p0_locationError := p0_getLocationError TypeError, p0_locationLoading := False\<rparr>, e)
      else case getCurrentPosition
                  (Some \<lparr>enableHighAccuracy = True, timeout = 10000, maximumAge = 60000\<rparr>) e of
             (Inr pos, e1) \<Rightarrow>
               (case new_Date e1 of
                  (now, e2) \<Rightarrow>
                    (s1\<lparr>p0_currentLocation :=
                           Some \<lparr>loc_id = [], loc_latitude = latitude pos, loc_longitude = longitude pos,
                                 loc_accuracy = accuracy pos, loc_timestamp = timestamp pos,
                                 loc_savedAt = now\<rparr>,
                         p0_locationLoading := False\<rparr>, e2))
           | (Inl code, e1) \<Rightarrow>
               (s1\<lparr>p0_locationError := p0_getLocationError (GeoError code),
                   p0_locationLoading := False\<rparr>, e1))"

text \<open>
  The callback of the subscription to the session stream (part_000, lines 92-107). It
  starts the three loads without awaiting them, so each runs up to its first remote
  call before the next starts: the calls are issued in the order users, workouts,
  locations, and the later calls of \<^verbatim>\<open>loadUserProfile\<close> follow them. The callback
  then sets the edit field and returns. The order in which the answers arrive is the
  network's; here the two lists' answers are taken first, then the profile's. The
  three loads write different signals and the profile is written to another
  collection than the lists are read from, so that order decides only which reading
  of the clock each use of the clock takes.
\<close>

definition p0_on_user :: "auth_user option \<Rightarrow> p0_app \<Rightarrow> env \<Rightarrow> p0_app \<times> env" where
  "p0_on_user user s e =
     (case user of
        Some u \<Rightarrow>
          (case p0_loadUserProfile_request e of
             (r0, e1) \<Rightarrow>
               (case p0_loadWorkouts_request s e1 of
                  ((s1, w), e2) \<Rightarrow>
                    (case p0_loadSavedLocations_request s1 e2 of
                       ((s2, l), e3) \<Rightarrow>
                         (case p0_loadWorkouts_answered w
                                 (s2\<lparr>p0_editUsername := (case displayName u of Some d \<Rightarrow> d | None \<Rightarrow> [])\<rparr>) e3 of
                            (s4, e4) \<Rightarrow>
                              (case p0_loadSavedLocations_answered l s4 e4 of
                                 (s5, e5) \<Rightarrow> p0_loadUserProfile_answered (uid u) r0 s5 e5)))))
      | None \<Rightarrow>
          (s\<lparr>p0_userProfile := None, p0_workouts := [], p0_savedLocations := [],
             p0_editUsername := []\<rparr>, e))"

section \<open>Concrete inputs\<close>

text \<open>An environment with an empty store, no session, and a provider that refuses every sign-in as a wrong password.\<close>

definition env0 :: env where
  "env0 = \<lparr>db = (\<lambda>p. []), currentUser = None, calls = 0, fails = (\<lambda>n. False),
           autoId = (\<lambda>n. ''doc'' @ replicate n CHR ''x''), ticks = 0, clock = (\<lambda>n. 1000 + int n),
           verdict = (\<lambda>em pw. Inl ''auth/wrong-password''), geolocation = True,
           geo_answer = Inl 1, requests = []\<rparr>"

definition app0 :: app where
  "app0 = \<lparr>loginEmail = ''a@x.com'', loginPassword = ''nope'', loginError = [],
           workouts = [], savedLocations = [], userData = None, editUsername = VStr [],
           currentLocation = None, locationLoading = False, locationError = [],
           showAddWorkout = False, newWorkout = Map.empty\<rparr>"

definition p0_app0 :: p0_app where
  "p0_app0 = \<lparr>p0_loginEmail = ''a@x.com'', p0_loginPassword = ''nope'', p0_registerUsername = [],
              p0_loginError = [], p0_workouts = [], p0_showAddWorkout = False,
              p0_newWorkout = Map.empty, p0_currentLocation = None, p0_savedLocations = [],
              p0_locationLoading = False, p0_locationError = [], p0_userProfile = None,
              p0_editUsername = [],
              p0_isPremium = VBool False\<rparr>"

text \<open>A signed-in user, and the same world with that user's session.\<close>

definition user1 :: auth_user where
  "user1 = \<lparr>uid = ''u1'', email = Some ''ana@x.com'', displayName = Some ''Ana''\<rparr>"

definition env1 :: env where
  "env1 = env0\<lparr>currentUser := Some user1\<rparr>"

text \<open>The same world when every remote call is lost.\<close>

definition env_down :: env where
  "env_down = env1\<lparr>fails := (\<lambda>n. True)\<rparr>"

text \<open>A world with no session in which every remote call is lost.\<close>

definition env_off :: env where
  "env_off = env0\<lparr>fails := (\<lambda>n. True)\<rparr>"

text \<open>A workout as the form holds it (with a date of its own) and as a list shows it.\<close>

definition workout1 :: obj where
  "workout1 = [''name'' \<mapsto> VStr ''Run'', ''type'' \<mapsto> VStr ''Cardio'', ''duration'' \<mapsto> VNum 30,
               ''notes'' \<mapsto> VStr [], ''date'' \<mapsto> VDate 5]"

definition shown1 :: obj where
  "shown1 = workout1(''id'' \<mapsto> VStr ''w1'')"

text \<open>
  Controllers of a signed-in user: the service variant's with empty lists, the
  monolithic variant's with lists that show one record.
\<close>

definition app1 :: app where
  "app1 = app0\<lparr>userData := Some [''uid'' \<mapsto> VStr ''u1'', ''username'' \<mapsto> VStr ''Ana''],
               newWorkout := workout1\<rparr>"

definition p0_app1 :: p0_app where
  "p0_app1 = p0_app0\<lparr>p0_workouts := [shown1], p0_savedLocations := [shown1], p0_newWorkout := workout1,
                     p0_userProfile := Some [''id'' \<mapsto> VStr ''u1'', ''username'' \<mapsto> VStr ''Ana'']\<rparr>"

text \<open>A store that holds the user's document, with the fields either variant writes.\<close>

definition user_doc1 :: obj where
  "user_doc1 = [''uid'' \<mapsto> VStr ''u1'', ''id'' \<mapsto> VStr ''u1'', ''email'' \<mapsto> VStr ''ana@x.com'',
                ''username'' \<mapsto> VStr ''Ana'', ''displayName'' \<mapsto> VStr ''Ana'',
                ''createdAt'' \<mapsto> VTimestamp 500, ''isPremium'' \<mapsto> VBool True]"

definition env2 :: env where
  "env2 = env1\<lparr>db := (\<lambda>p. if p = [''users''] then [(''u1'', user_doc1)] else [])\<rparr>"

text \<open>A store with two workouts and two locations of the user, the older one first.\<close>

definition env3 :: env where
  "env3 = env1\<lparr>db := (\<lambda>p. if p = [''users'', ''u1'', ''workouts'']
                          then [(''w1'', [''name'' \<mapsto> VStr ''Run'', ''date'' \<mapsto> VTimestamp 100]),
                                (''w2'', [''name'' \<mapsto> VStr ''Swim'', ''date'' \<mapsto> VTimestamp 200])]
                          else if p = [''users'', ''u1'', ''locations'']
                          then [(''l1'', [''latitude'' \<mapsto> VNum 1, ''timestamp'' \<mapsto> VTimestamp 290,
                                          ''savedAt'' \<mapsto> VTimestamp 300]),
                                (''l2'', [''latitude'' \<mapsto> VNum 2, ''timestamp'' \<mapsto> VTimestamp 390,
                                          ''savedAt'' \<mapsto> VTimestamp 400])]
                          else [])\<rparr>"

text \<open>The same store when the second remote call, and only it, is lost.\<close>

definition env4 :: env where
  "env4 = env3\<lparr>fails := (\<lambda>n. n = 1)\<rparr>"

text \<open>The same store when the third remote call, and only it, is lost.\<close>

definition env5 :: env where
  "env5 = env3\<lparr>fails := (\<lambda>n. n = 2)\<rparr>"

text \<open>What the facade makes of the two workouts of that store.\<close>

definition run_rec :: obj where
  "run_rec = [''id'' \<mapsto> VStr ''w1'', ''name'' \<mapsto> VStr ''Run'', ''date'' \<mapsto> VDate 100]"

definition swim_rec :: obj where
  "swim_rec = [''id'' \<mapsto> VStr ''w2'', ''name'' \<mapsto> VStr ''Swim'', ''date'' \<mapsto> VDate 200]"

text \<open>A captured location, and a monolithic controller that holds it.\<close>

definition loc1 :: location where
  "loc1 = \<lparr>loc_id = [], loc_latitude = 48.5, loc_longitude = 2.25, loc_accuracy = 10,
            loc_timestamp = 900, loc_savedAt = 950\<rparr>"

definition p0_app2 :: p0_app where
  "p0_app2 = p0_app1\<lparr>p0_currentLocation := Some loc1\<rparr>"

section \<open>Lemmas on the store and on the loads\<close>

lemmas p0_loadWorkouts_defs =
  p0_loadWorkouts_def p0_loadWorkouts_request_def p0_loadWorkouts_answered_def

lemmas p0_loadSavedLocations_defs =
  p0_loadSavedLocations_def p0_loadSavedLocations_request_def p0_loadSavedLocations_answered_def

lemmas store_defs =
  getDocs_def getDoc_def setDoc_def setDoc_merge_def updateDoc_def addDoc_def deleteDoc_def
  put_def new_Date_def

lemma map_of_filter_fst:
  "map_of (filter (\<lambda>x. fst x \<noteq> i) xs) j = (if j = i then None else map_of xs j)"
  by (induction xs) auto

lemma map_of_put:
  "map_of (db (put p i d e) q) j = (if q = p \<and> j = i then Some d else map_of (db e q) j)"
  by (simp add: put_def map_of_filter_fst)

lemma db_put_other: "q \<noteq> p \<Longrightarrow> db (put p i d e) q = db e q"
  by (simp add: put_def)

lemma getDocs_frame:
  "getDocs q e = (r, e') \<Longrightarrow> e' = e\<lparr>calls := Suc (calls e)\<rparr>"
  by (auto simp: getDocs_def Let_def split: if_splits)

text \<open>The conversion of the monolithic loads changes nothing but the count of clock readings.\<close>

lemma p0_toDate_frame:
  "p0_toDate x e = (r, e') \<Longrightarrow> \<exists>n. e' = e\<lparr>ticks := n\<rparr>"
  apply (cases "(x, e)" rule: p0_toDate.cases)
  apply (auto simp: new_Date_def)
  by (metis env.surjective env.update_convs(6))+

lemma p0_workout_frame:
  "p0_workout d e = (r, e') \<Longrightarrow> \<exists>n. e' = e\<lparr>ticks := n\<rparr>"
  by (auto simp: p0_workout_def split: prod.splits sum.splits dest: p0_toDate_frame)

lemma p0_workoutsData_frame:
  "p0_workoutsData ds e = (r, e') \<Longrightarrow> \<exists>n. e' = e\<lparr>ticks := n\<rparr>"
proof (induction ds arbitrary: e r e')
  case Nil
  then show ?case by (auto intro: exI [of _ "ticks e"])
next
  case (Cons d ds)
  obtain r1 e1 where w: "p0_workout d e = (r1, e1)" by (cases "p0_workout d e")
  then obtain n1 where e1: "e1 = e\<lparr>ticks := n1\<rparr>" using p0_workout_frame by blast
  show ?case
  proof (cases r1)
    case (Inl err)
    with Cons.prems w e1 show ?thesis by auto
  next
    case (Inr x)
    obtain r2 e2 where ws: "p0_workoutsData ds e1 = (r2, e2)" by (cases "p0_workoutsData ds e1")
    then obtain n2 where e2: "e2 = e1\<lparr>ticks := n2\<rparr>" using Cons.IH by blast
    from Cons.prems w Inr ws have "e' = e2" by (auto split: sum.splits)
    with e1 e2 show ?thesis by auto
  qed
qed

lemma p0_loadWorkouts_frame:
  assumes a: "p0_loadWorkouts s e = (s', e')"
  shows "(\<exists>ws. s' = s\<lparr>p0_workouts := ws\<rparr>) \<and> (\<exists>c n. e' = e\<lparr>calls := c, ticks := n\<rparr>)"
proof (cases "currentUser e")
  case None
  with a have "s' = s\<lparr>p0_workouts := []\<rparr>" "e' = e\<lparr>calls := calls e, ticks := ticks e\<rparr>"
    by (auto simp: p0_loadWorkouts_defs)
  then show ?thesis by blast
next
  case (Some user)
  obtain r1 e1 where g: "getDocs (OrderBy [''users'', uid user, ''workouts''] ''date'' Desc) e = (r1, e1)"
    by (cases "getDocs (OrderBy [''users'', uid user, ''workouts''] ''date'' Desc) e")
  then have e1: "e1 = e\<lparr>calls := Suc (calls e)\<rparr>" by (rule getDocs_frame)
  show ?thesis
  proof (cases r1)
    case (Inl err)
    with a Some g e1 have "s' = s\<lparr>p0_workouts := []\<rparr>" "e' = e\<lparr>calls := Suc (calls e), ticks := ticks e\<rparr>"
      by (auto simp: p0_loadWorkouts_defs)
    then show ?thesis by blast
  next
    case (Inr docs)
    obtain r2 e2 where w: "p0_workoutsData docs e1 = (r2, e2)" by (cases "p0_workoutsData docs e1")
    then obtain n where e2: "e2 = e1\<lparr>ticks := n\<rparr>" using p0_workoutsData_frame by blast
    from a Some g Inr w have "e' = e2" "\<exists>ws. s' = s\<lparr>p0_workouts := ws\<rparr>"
      by (auto simp: p0_loadWorkouts_defs split: sum.splits)
    with e1 e2 show ?thesis by auto
  qed
qed

lemma p0_loadWorkouts_db: "db (snd (p0_loadWorkouts s e)) = db e"
  using p0_loadWorkouts_frame [of s e "fst (p0_loadWorkouts s e)" "snd (p0_loadWorkouts s e)"] by auto

lemma p0_location_frame:
  "p0_location d e = (r, e') \<Longrightarrow> \<exists>n. e' = e\<lparr>ticks := n\<rparr>"
  by (auto simp: p0_location_def split: prod.splits sum.splits dest!: p0_toDate_frame)

lemma p0_locationsData_frame:
  "p0_locationsData ds e = (r, e') \<Longrightarrow> \<exists>n. e' = e\<lparr>ticks := n\<rparr>"
proof (induction ds arbitrary: e r e')
  case Nil
  then show ?case by (auto intro: exI [of _ "ticks e"])
next
  case (Cons d ds)
  obtain r1 e1 where w: "p0_location d e = (r1, e1)" by (cases "p0_location d e")
  then obtain n1 where e1: "e1 = e\<lparr>ticks := n1\<rparr>" using p0_location_frame by blast
  show ?case
  proof (cases r1)
    case (Inl err)
    with Cons.prems w e1 show ?thesis by auto
  next
    case (Inr x)
    obtain r2 e2 where ws: "p0_locationsData ds e1 = (r2, e2)" by (cases "p0_locationsData ds e1")
    then obtain n2 where e2: "e2 = e1\<lparr>ticks := n2\<rparr>" using Cons.IH by blast
    from Cons.prems w Inr ws have "e' = e2" by (auto split: sum.splits)
    with e1 e2 show ?thesis by auto
  qed
qed

section \<open>C1: a profile for every session\<close>

lemma p0_loadWorkouts_answered_frame:
  assumes "p0_loadWorkouts_answered w s e = (s', e')"
  shows "\<exists>ws n. s' = s\<lparr>p0_workouts := ws\<rparr> \<and> e' = e\<lparr>ticks := n\<rparr>"
proof (cases w)
  case None
  with assms have "s' = s\<lparr>p0_workouts := p0_workouts s\<rparr>" "e' = e\<lparr>ticks := ticks e\<rparr>"
    by (simp_all add: p0_loadWorkouts_answered_def)
  then show ?thesis by blast
next
  case (Some r)
  show ?thesis
  proof (cases r)
    case (Inl err)
    with assms Some have "s' = s\<lparr>p0_workouts := []\<rparr>" "e' = e\<lparr>ticks := ticks e\<rparr>"
      by (simp_all add: p0_loadWorkouts_answered_def)
    then show ?thesis by blast
  next
    case (Inr docs)
    obtain r2 e2 where w: "p0_workoutsData docs e = (r2, e2)" by (cases "p0_workoutsData docs e")
    then obtain n where e2: "e2 = e\<lparr>ticks := n\<rparr>" using p0_workoutsData_frame by blast
    from assms Some Inr w have "e' = e2" "\<exists>ws. s' = s\<lparr>p0_workouts := ws\<rparr>"
      by (auto simp: p0_loadWorkouts_answered_def split: sum.splits)
    with e2 show ?thesis by auto
  qed
qed

lemma p0_loadSavedLocations_answered_frame:
  assumes "p0_loadSavedLocations_answered l s e = (s', e')"
  shows "\<exists>ls n. s' = s\<lparr>p0_savedLocations := ls\<rparr> \<and> e' = e\<lparr>ticks := n\<rparr>"
proof (cases l)
  case None
  with assms have "s' = s\<lparr>p0_savedLocations := p0_savedLocations s\<rparr>" "e' = e\<lparr>ticks := ticks e\<rparr>"
    by (simp_all add: p0_loadSavedLocations_answered_def)
  then show ?thesis by blast
next
  case (Some r)
  show ?thesis
  proof (cases r)
    case (Inl err)
    with assms Some have "s' = s\<lparr>p0_savedLocations := []\<rparr>" "e' = e\<lparr>ticks := ticks e\<rparr>"
      by (simp_all add: p0_loadSavedLocations_answered_def)
    then show ?thesis by blast
  next
    case (Inr docs)
    obtain r2 e2 where w: "p0_locationsData docs e = (r2, e2)" by (cases "p0_locationsData docs e")
    then obtain n where e2: "e2 = e\<lparr>ticks := n\<rparr>" using p0_locationsData_frame by blast
    from assms Some Inr w have "e' = e2" "\<exists>ls. s' = s\<lparr>p0_savedLocations := ls\<rparr>"
      by (auto simp: p0_loadSavedLocations_answered_def split: sum.splits)
    with e2 show ?thesis by auto
  qed
qed

text \<open>The reaction, with a current user, up to the answer to the profile's first call.\<close>

lemma p0_on_user_prefix:
  assumes cu: "currentUser e = Some cu"
  shows "\<exists>ws ls x n.
           p0_on_user (Some u) t e =
             p0_loadUserProfile_answered (uid u)
               (if fails e (calls e) then Inl StoreError else Inr (run_query (Collection [''users'']) (db e)))
               (t\<lparr>p0_workouts := ws, p0_savedLocations := ls, p0_editUsername := x\<rparr>)
               (e\<lparr>calls := calls e + 3, ticks := n\<rparr>)"
proof -
  define r0 where "r0 = (if fails e (calls e) then Inl StoreError else Inr (run_query (Collection [''users'']) (db e)))"
  define e1 where "e1 = e\<lparr>calls := Suc (calls e)\<rparr>"
  have q0: "p0_loadUserProfile_request e = (r0, e1)"
    by (simp add: p0_loadUserProfile_request_def getDocs_def r0_def e1_def del: run_query.simps)
  define w where "w = fst (getDocs (OrderBy [''users'', uid cu, ''workouts''] ''date'' Desc) e1)"
  have q1: "p0_loadWorkouts_request t e1 = ((t, Some w), e1\<lparr>calls := Suc (calls e1)\<rparr>)"
    using cu by (simp add: p0_loadWorkouts_request_def getDocs_def e1_def w_def Let_def del: run_query.simps)
  define e2 where "e2 = e1\<lparr>calls := Suc (calls e1)\<rparr>"
  define l where "l = fst (getDocs (OrderBy [''users'', uid cu, ''locations''] ''savedAt'' Desc) e2)"
  have q2: "p0_loadSavedLocations_request t e2 = ((t, Some l), e2\<lparr>calls := Suc (calls e2)\<rparr>)"
    using cu by (simp add: p0_loadSavedLocations_request_def getDocs_def e1_def e2_def l_def Let_def del: run_query.simps)
  define e3 where "e3 = e2\<lparr>calls := Suc (calls e2)\<rparr>"
  define x where "x = (case displayName u of Some d \<Rightarrow> d | None \<Rightarrow> [])"
  obtain s4 e4 where a1: "p0_loadWorkouts_answered (Some w) (t\<lparr>p0_editUsername := x\<rparr>) e3 = (s4, e4)"
    by (cases "p0_loadWorkouts_answered (Some w) (t\<lparr>p0_editUsername := x\<rparr>) e3")
  then obtain ws n4 where f4: "s4 = t\<lparr>p0_editUsername := x, p0_workouts := ws\<rparr>" "e4 = e3\<lparr>ticks := n4\<rparr>"
    using p0_loadWorkouts_answered_frame [OF a1] by auto
  obtain s5 e5 where a2: "p0_loadSavedLocations_answered (Some l) s4 e4 = (s5, e5)"
    by (cases "p0_loadSavedLocations_answered (Some l) s4 e4")
  then obtain ls n5 where f5: "s5 = s4\<lparr>p0_savedLocations := ls\<rparr>" "e5 = e4\<lparr>ticks := n5\<rparr>"
    using p0_loadSavedLocations_answered_frame [OF a2] by auto
  have "p0_on_user (Some u) t e = p0_loadUserProfile_answered (uid u) r0 s5 e5"
    using q0 q1 q2 a1 a2 by (simp add: p0_on_user_def e2_def e3_def x_def)
  moreover have "s5 = t\<lparr>p0_workouts := ws, p0_savedLocations := ls, p0_editUsername := x\<rparr>"
    using f4 f5 by simp
  moreover have "e5 = e\<lparr>calls := calls e + 3, ticks := n5\<rparr>"
    using f4 f5 by (simp add: e3_def e2_def e1_def)
  ultimately show ?thesis unfolding r0_def by blast
qed


lemma p0_createUserProfile_cases:
  assumes "currentUser e = Some cu"
  shows "\<not> fails e (calls e) \<Longrightarrow>
           p0_createUserProfile i s e =
             (s\<lparr>p0_userProfile := Some (p0_default_profile i (p0_registerUsername s) cu (clock e (ticks e))),
                p0_isPremium := VBool False\<rparr>,
              put [''users''] i (stored (p0_default_profile i (p0_registerUsername s) cu (clock e (ticks e))))
                (e\<lparr>ticks := Suc (ticks e), calls := Suc (calls e)\<rparr>))"
    and "fails e (calls e) \<Longrightarrow>
           p0_createUserProfile i s e =
             (s\<lparr>p0_userProfile := Some (p0_fallback_profile i (clock e (Suc (ticks e))))\<rparr>,
              e\<lparr>ticks := Suc (Suc (ticks e)), calls := Suc (calls e)\<rparr>)"
  using assms
  by (simp_all add: p0_createUserProfile_def setDoc_def new_Date_def Let_def p0_default_profile_def
      p0_fallback_profile_def)

lemma p0_loadUserProfile_answered_cases:
  shows "p0_loadUserProfile_answered i (Inl err) s e = p0_createUserProfile i s e"
    and "\<not> fails e (calls e) \<Longrightarrow> run_query (Where [''users''] ''id'' (VStr i)) (db e) = d # ds \<Longrightarrow>
           p0_loadUserProfile_answered i (Inr x) s e = (p0_set_profile (snd d) s, e\<lparr>calls := Suc (calls e)\<rparr>)"
    and "fails e (calls e) \<Longrightarrow> \<not> fails e (Suc (calls e)) \<Longrightarrow>
           run_query (Where [''users''] ''id'' (VStr i)) (db e) = d # ds \<Longrightarrow>
           p0_loadUserProfile_answered i (Inr x) s e = (p0_set_profile (snd d) s, e\<lparr>calls := Suc (Suc (calls e))\<rparr>)"
    and "run_query (Where [''users''] ''id'' (VStr i)) (db e) = [] \<or> (fails e (calls e) \<and> fails e (Suc (calls e))) \<Longrightarrow>
           p0_loadUserProfile_answered i (Inr x) s e = p0_createUserProfile i s (e\<lparr>calls := Suc (Suc (calls e))\<rparr>)"
  by (auto simp: p0_loadUserProfile_answered_def getDocs_def Let_def simp del: run_query.simps)


lemma p0_on_user_stored:
  assumes cu: "currentUser e = Some cu" and f0: "\<not> fails e (calls e)"
    and f34: "\<not> (fails e (calls e + 3) \<and> fails e (calls e + 4))"
    and found: "run_query (Where [''users''] ''id'' (VStr (uid u))) (db e) = d # ds"
  shows "p0_userProfile (fst (p0_on_user (Some u) t e)) = Some (snd d)
       \<and> p0_isPremium (fst (p0_on_user (Some u) t e)) = js_or (snd d ''isPremium'') (VBool False)
       \<and> db (snd (p0_on_user (Some u) t e)) = db e"
proof -
  from p0_on_user_prefix [OF cu, of u t] f0 obtain s5 n where
    r: "p0_on_user (Some u) t e =
          p0_loadUserProfile_answered (uid u) (Inr (run_query (Collection [''users'']) (db e))) s5
            (e\<lparr>calls := calls e + 3, ticks := n\<rparr>)"
    by auto
  let ?e5 = "e\<lparr>calls := calls e + 3, ticks := n\<rparr>"
  have found5: "run_query (Where [''users''] ''id'' (VStr (uid u))) (db ?e5) = d # ds"
    using found by simp
  show ?thesis
  proof (cases "fails e (calls e + 3)")
    case False
    then have "\<not> fails ?e5 (calls ?e5)" by simp
    from p0_loadUserProfile_answered_cases(2) [OF this found5] r
    show ?thesis by (simp add: p0_set_profile_def)
  next
    case True
    have "Suc (calls e + 3) = calls e + 4" by simp
    with True f34 have "fails ?e5 (calls ?e5)" "\<not> fails ?e5 (Suc (calls ?e5))"
      by (simp_all add: add.commute)
    from p0_loadUserProfile_answered_cases(3) [OF this found5] r
    show ?thesis by (simp add: p0_set_profile_def)
  qed
qed

lemma p0_on_user_creates:
  assumes cu: "currentUser e = Some cu"
    and cond: "fails e (calls e) \<or> run_query (Where [''users''] ''id'' (VStr (uid u))) (db e) = []
               \<or> (fails e (calls e + 3) \<and> fails e (calls e + 4))"
  shows "\<exists>s5 n. p0_on_user (Some u) t e =
           p0_createUserProfile (uid u) s5
             (e\<lparr>calls := (if fails e (calls e) then calls e + 3 else calls e + 5), ticks := n\<rparr>)
           \<and> p0_registerUsername s5 = p0_registerUsername t"
proof -
  from p0_on_user_prefix [OF cu, of u t] obtain ws ls x n where
    r: "p0_on_user (Some u) t e =
          p0_loadUserProfile_answered (uid u)
            (if fails e (calls e) then Inl StoreError else Inr (run_query (Collection [''users'']) (db e)))
            (t\<lparr>p0_workouts := ws, p0_savedLocations := ls, p0_editUsername := x\<rparr>)
            (e\<lparr>calls := calls e + 3, ticks := n\<rparr>)"
    by blast
  let ?s5 = "t\<lparr>p0_workouts := ws, p0_savedLocations := ls, p0_editUsername := x\<rparr>"
  let ?e5 = "e\<lparr>calls := calls e + 3, ticks := n\<rparr>"
  show ?thesis
  proof (cases "fails e (calls e)")
    case True
    with r have eq1: "p0_on_user (Some u) t e = p0_createUserProfile (uid u) ?s5 ?e5"
      by (simp add: p0_loadUserProfile_answered_cases(1))
    have eq2: "?e5 = e\<lparr>calls := (if fails e (calls e) then calls e + 3 else calls e + 5), ticks := n\<rparr>"
      using True by simp
    have "p0_on_user (Some u) t e =
            p0_createUserProfile (uid u) ?s5
              (e\<lparr>calls := (if fails e (calls e) then calls e + 3 else calls e + 5), ticks := n\<rparr>)"
      by (rule trans [OF eq1]) (simp only: eq2)
    moreover have "p0_registerUsername ?s5 = p0_registerUsername t" by simp
    ultimately show ?thesis by blast
  next
    case False
    have four: "Suc (calls e + 3) = calls e + 4" by simp
    with False cond have "run_query (Where [''users''] ''id'' (VStr (uid u))) (db ?e5) = []
                    \<or> (fails ?e5 (calls ?e5) \<and> fails ?e5 (Suc (calls ?e5)))"
      by (simp del: run_query.simps add: add.commute)
    from p0_loadUserProfile_answered_cases(4) [OF this] r False
    have eq1: "p0_on_user (Some u) t e = p0_createUserProfile (uid u) ?s5 (?e5\<lparr>calls := Suc (Suc (calls ?e5))\<rparr>)"
      by simp
    have eq2: "?e5\<lparr>calls := Suc (Suc (calls ?e5))\<rparr> =
                 e\<lparr>calls := (if fails e (calls e) then calls e + 3 else calls e + 5), ticks := n\<rparr>"
      using False by simp
    have "p0_on_user (Some u) t e =
            p0_createUserProfile (uid u) ?s5
              (e\<lparr>calls := (if fails e (calls e) then calls e + 3 else calls e + 5), ticks := n\<rparr>)"
      by (rule trans [OF eq1]) (simp only: eq2)
    moreover have "p0_registerUsername ?s5 = p0_registerUsername t" by simp
    ultimately show ?thesis by blast
  qed
qed

lemma p0_on_user_default:
  assumes cu: "currentUser e = Some cu"
    and cond: "fails e (calls e) \<or> run_query (Where [''users''] ''id'' (VStr (uid u))) (db e) = []
               \<or> (fails e (calls e + 3) \<and> fails e (calls e + 4))"
    and w: "\<not> fails e (if fails e (calls e) then calls e + 3 else calls e + 5)"
  shows "\<exists>n. p0_userProfile (fst (p0_on_user (Some u) t e)) =
               Some (p0_default_profile (uid u) (p0_registerUsername t) cu (clock e n))
           \<and> p0_isPremium (fst (p0_on_user (Some u) t e)) = VBool False
           \<and> map_of (db (snd (p0_on_user (Some u) t e)) [''users'']) (uid u) =
               Some (stored (p0_default_profile (uid u) (p0_registerUsername t) cu (clock e n)))"
proof -
  from p0_on_user_creates [OF cu cond, of t] obtain s5 n where
    r: "p0_on_user (Some u) t e =
          p0_createUserProfile (uid u) s5
            (e\<lparr>calls := (if fails e (calls e) then calls e + 3 else calls e + 5), ticks := n\<rparr>)"
    and reg: "p0_registerUsername s5 = p0_registerUsername t"
    by blast
  let ?e = "e\<lparr>calls := (if fails e (calls e) then calls e + 3 else calls e + 5), ticks := n\<rparr>"
  have "currentUser ?e = Some cu" "\<not> fails ?e (calls ?e)" using cu w by simp_all
  from p0_createUserProfile_cases(1) [OF this, of "uid u" s5] r reg
  show ?thesis by (intro exI [of _ n]) (simp add: map_of_put)
qed

lemma p0_on_user_fallback:
  assumes cu: "currentUser e = Some cu"
    and cond: "fails e (calls e) \<or> run_query (Where [''users''] ''id'' (VStr (uid u))) (db e) = []
               \<or> (fails e (calls e + 3) \<and> fails e (calls e + 4))"
    and w: "fails e (if fails e (calls e) then calls e + 3 else calls e + 5)"
  shows "\<exists>n. p0_userProfile (fst (p0_on_user (Some u) t e)) = Some (p0_fallback_profile (uid u) (clock e n))
           \<and> db (snd (p0_on_user (Some u) t e)) = db e"
proof -
  from p0_on_user_creates [OF cu cond, of t] obtain s5 n where
    r: "p0_on_user (Some u) t e =
          p0_createUserProfile (uid u) s5
            (e\<lparr>calls := (if fails e (calls e) then calls e + 3 else calls e + 5), ticks := n\<rparr>)"
    by blast
  let ?e = "e\<lparr>calls := (if fails e (calls e) then calls e + 3 else calls e + 5), ticks := n\<rparr>"
  have "currentUser ?e = Some cu" "fails ?e (calls ?e)" using cu w by simp_all
  from p0_createUserProfile_cases(2) [OF this, of "uid u" s5] r
  show ?thesis by (intro exI [of _ "Suc n"]) simp
qed

lemma p0_on_user_no_current_user:
  "currentUser e = None \<Longrightarrow> fails e (calls e) \<Longrightarrow>
     p0_userProfile (fst (p0_on_user (Some u) t e)) = p0_userProfile t
     \<and> db (snd (p0_on_user (Some u) t e)) = db e"
  by (simp add: p0_on_user_def p0_loadUserProfile_request_def getDocs_def p0_loadWorkouts_request_def
      p0_loadSavedLocations_request_def p0_loadWorkouts_answered_def p0_loadSavedLocations_answered_def
      p0_loadUserProfile_answered_def p0_createUserProfile_def Let_def)


lemma AppComponent_loadUserData_frame:
  "userData (fst (AppComponent_loadUserData s e)) = userData s
   \<and> db (snd (AppComponent_loadUserData s e)) = db e"
  by (simp add: AppComponent_loadUserData_def AppComponent_loadWorkouts_def AppComponent_loadLocations_def
      AuthService_loadWorkouts_def AuthService_loadLocations_def getDocs_def Let_def
      split: option.splits prod.splits sum.splits del: run_query.simps)

lemma AppComponent_on_user_cases:
  shows "\<not> fails e (calls e) \<Longrightarrow> map_of (db e [''users'']) (uid u) = None \<Longrightarrow>
           userData (fst (AppComponent_on_user (Some u) s e)) = None"
    and "\<not> fails e (calls e) \<Longrightarrow> map_of (db e [''users'']) (uid u) = Some data \<Longrightarrow>
           userData (fst (AppComponent_on_user (Some u) s e)) = Some (AuthService_user data)"
    and "fails e (calls e) \<Longrightarrow> userData (fst (AppComponent_on_user (Some u) s e)) = userData s"
    and "db (snd (AppComponent_on_user (Some u) s e)) = db e"
  by (simp_all add: AppComponent_on_user_def AuthService_getUserData_def getDoc_def Let_def
      AppComponent_loadUserData_frame split: option.splits)

text \<open>
  C1, as stated, for the service variant: after the reaction to an established
  session a User record would exist in state. With no document for the user the
  facade returns null, the controller stores it, and nothing creates a default.
\<close>

theorem C1_counterexample:
  "currentUser env1 = Some user1
   \<and> fst (AuthService_getUserData (uid user1) env1) = Inr None
   \<and> userData (fst (AppComponent_on_user (Some user1) app0 env1)) = None"
  by (simp add: AppComponent_on_user_def AuthService_getUserData_def getDoc_def
      AppComponent_loadUserData_def AppComponent_loadWorkouts_def AppComponent_loadLocations_def
      uid_of_def js_or_def app0_def env1_def env0_def user1_def)

text \<open>
  C1, amended. In the monolithic variant, with a current user, the reaction to a
  signed-in session issues the calls users, workouts, locations, lookup, lookup,
  write, and ends with a profile in state:
  \<^item> the stored profile, with its premium flag, and an unchanged store, when the first
    read is answered and a lookup that is answered finds a document of the user;
  \<^item> otherwise (the first read is lost, or no document is found, or both lookups are
    lost) the default profile of \<open>createUserProfile\<close>, with the user's identifier, the
    chosen user name and no premium flag, written to the store, when the write is
    answered;
  \<^item> and the local fallback named "Marwan", the store unchanged, when the write is lost.
  Without a current user and with the first read lost, the profile in state is as it
  was. The service variant never writes to the store in its reaction and creates no
  default: the User record in state is null when the user has no document, the
  facade's record when there is one, and as it was when the fetch is lost.
\<close>

theorem C1_profile_after_session:
  "(currentUser e = Some cu \<and> \<not> fails e (calls e)
      \<and> \<not> (fails e (calls e + 3) \<and> fails e (calls e + 4))
      \<and> run_query (Where [''users''] ''id'' (VStr (uid u))) (db e) = d # ds \<longrightarrow>
        p0_userProfile (fst (p0_on_user (Some u) t e)) = Some (snd d)
      \<and> p0_isPremium (fst (p0_on_user (Some u) t e)) = js_or (snd d ''isPremium'') (VBool False)
      \<and> db (snd (p0_on_user (Some u) t e)) = db e)
   \<and> (currentUser e = Some cu
      \<and> (fails e (calls e) \<or> run_query (Where [''users''] ''id'' (VStr (uid u))) (db e) = []
           \<or> (fails e (calls e + 3) \<and> fails e (calls e + 4)))
      \<and> \<not> fails e (if fails e (calls e) then calls e + 3 else calls e + 5) \<longrightarrow>
        (\<exists>n. p0_userProfile (fst (p0_on_user (Some u) t e)) =
                 Some (p0_default_profile (uid u) (p0_registerUsername t) cu (clock e n))
            \<and> p0_isPremium (fst (p0_on_user (Some u) t e)) = VBool False
            \<and> map_of (db (snd (p0_on_user (Some u) t e)) [''users'']) (uid u) =
                 Some (stored (p0_default_profile (uid u) (p0_registerUsername t) cu (clock e n)))))
   \<and> (currentUser e = Some cu
      \<and> (fails e (calls e) \<or> run_query (Where [''users''] ''id'' (VStr (uid u))) (db e) = []
           \<or> (fails e (calls e + 3) \<and> fails e (calls e + 4)))
      \<and> fails e (if fails e (calls e) then calls e + 3 else calls e + 5) \<longrightarrow>
        (\<exists>n. p0_userProfile (fst (p0_on_user (Some u) t e)) = Some (p0_fallback_profile (uid u) (clock e n))
            \<and> db (snd (p0_on_user (Some u) t e)) = db e))
   \<and> (currentUser e = None \<and> fails e (calls e) \<longrightarrow>
        p0_userProfile (fst (p0_on_user (Some u) t e)) = p0_userProfile t
      \<and> db (snd (p0_on_user (Some u) t e)) = db e)
   \<and> (\<not> fails e (calls e) \<and> map_of (db e [''users'']) (uid u) = None \<longrightarrow>
        userData (fst (AppComponent_on_user (Some u) s e)) = None)
   \<and> (\<not> fails e (calls e) \<and> map_of (db e [''users'']) (uid u) = Some data \<longrightarrow>
        userData (fst (AppComponent_on_user (Some u) s e)) = Some (AuthService_user data))
   \<and> (fails e (calls e) \<longrightarrow> userData (fst (AppComponent_on_user (Some u) s e)) = userData s)
   \<and> db (snd (AppComponent_on_user (Some u) s e)) = db e"
  using p0_on_user_stored [where e = e and cu = cu and u = u and d = d and ds = ds and t = t]
    p0_on_user_default [where e = e and cu = cu and u = u and t = t]
    p0_on_user_fallback [where e = e and cu = cu and u = u and t = t]
    p0_on_user_no_current_user [where e = e and u = u and t = t]
    AppComponent_on_user_cases(1) [where e = e and u = u and s = s]
    AppComponent_on_user_cases(2) [where e = e and u = u and s = s and data = data]
    AppComponent_on_user_cases(3) [where e = e and u = u and s = s]
    AppComponent_on_user_cases(4) [where e = e and u = u and s = s]
  by (simp del: run_query.simps)


theorem C1_profile_after_session_witness:
  "p0_userProfile p0_app0 = None \<and> p0_isPremium p0_app0 = VBool False
   \<and> p0_userProfile (fst (p0_on_user (Some user1) p0_app0 env2)) = Some user_doc1
   \<and> p0_isPremium (fst (p0_on_user (Some user1) p0_app0 env2)) = VBool True
   \<and> (\<exists>n. p0_userProfile (fst (p0_on_user (Some user1) p0_app0 env1)) =
              Some (p0_default_profile ''u1'' [] user1 (clock env1 n))
         \<and> map_of (db (snd (p0_on_user (Some user1) p0_app0 env1)) [''users'']) ''u1'' =
              Some (stored (p0_default_profile ''u1'' [] user1 (clock env1 n))))
   \<and> p0_default_profile ''u1'' [] user1 1000 ''username'' = Some (VStr ''Ana'')
   \<and> (\<exists>n. p0_userProfile (fst (p0_on_user (Some user1) p0_app0 env_down)) =
              Some (p0_fallback_profile ''u1'' (clock env_down n)))
   \<and> p0_fallback_profile ''u1'' 1001 ''username'' = Some (VStr ''Marwan'')
   \<and> p0_userProfile (fst (p0_on_user (Some user1) p0_app0 env_off)) = None
   \<and> userData (fst (AppComponent_on_user (Some user1) app1 env1)) = None
   \<and> userData (fst (AppComponent_on_user (Some user1) app1 env2)) = Some (AuthService_user user_doc1)
   \<and> userData (fst (AppComponent_on_user (Some user1) app1 env_down)) = userData app1"
proof -
  have h: "currentUser env1 = Some user1" "currentUser env2 = Some user1"
    "currentUser env_down = Some user1" "currentUser env_off = None"
    "uid user1 = ''u1''" "p0_registerUsername p0_app0 = []"
    "p0_userProfile p0_app0 = None" "p0_isPremium p0_app0 = VBool False"
    "\<And>n. \<not> fails env1 n" "\<And>n. \<not> fails env2 n" "\<And>n. fails env_down n" "\<And>n. fails env_off n"
    by (simp_all add: env_off_def env_down_def env2_def env1_def env0_def user1_def p0_app0_def)
  have q1: "run_query (Where [''users''] ''id'' (VStr ''u1'')) (db env1) = []"
    by (simp add: env1_def env0_def)
  have q2: "run_query (Where [''users''] ''id'' (VStr ''u1'')) (db env2) = [(''u1'', user_doc1)]"
    by (simp add: env2_def env1_def env0_def user_doc1_def)
  have m1: "map_of (db env1 [''users'']) ''u1'' = None"
    by (simp add: env1_def env0_def)
  have m2: "map_of (db env2 [''users'']) ''u1'' = Some user_doc1"
    by (simp add: env2_def env1_def env0_def)
  have pr: "user_doc1 ''isPremium'' = Some (VBool True)"
    "p0_default_profile ''u1'' [] user1 1000 ''username'' = Some (VStr ''Ana'')"
    "p0_fallback_profile ''u1'' 1001 ''username'' = Some (VStr ''Marwan'')"
    by (simp_all add: user_doc1_def p0_default_profile_def p0_fallback_profile_def p0_username_def
        trim_def is_space_def user1_def)
  note t2 = C1_profile_after_session [where e = env2 and cu = user1 and u = user1 and t = p0_app0
      and d = "(''u1'', user_doc1)" and ds = "[]" and s = app1 and data = user_doc1]
  note t1 = C1_profile_after_session [where e = env1 and cu = user1 and u = user1 and t = p0_app0
      and s = app1]
  note td = C1_profile_after_session [where e = env_down and cu = user1 and u = user1 and t = p0_app0
      and s = app1]
  note tf = C1_profile_after_session [where e = env_off and u = user1 and t = p0_app0]
  from t2 h q2 m2 pr have a: "p0_userProfile (fst (p0_on_user (Some user1) p0_app0 env2)) = Some user_doc1"
    "p0_isPremium (fst (p0_on_user (Some user1) p0_app0 env2)) = VBool True"
    "userData (fst (AppComponent_on_user (Some user1) app1 env2)) = Some (AuthService_user user_doc1)"
    by (simp_all del: run_query.simps add: js_or_def)
  from t1 h q1 m1 have b: "\<exists>n. p0_userProfile (fst (p0_on_user (Some user1) p0_app0 env1)) =
              Some (p0_default_profile ''u1'' [] user1 (clock env1 n))
         \<and> map_of (db (snd (p0_on_user (Some user1) p0_app0 env1)) [''users'']) ''u1'' =
              Some (stored (p0_default_profile ''u1'' [] user1 (clock env1 n)))"
    "userData (fst (AppComponent_on_user (Some user1) app1 env1)) = None"
    by (auto simp del: run_query.simps)
  from td h have c: "\<exists>n. p0_userProfile (fst (p0_on_user (Some user1) p0_app0 env_down)) =
              Some (p0_fallback_profile ''u1'' (clock env_down n))"
    "userData (fst (AppComponent_on_user (Some user1) app1 env_down)) = userData app1"
    by (auto simp del: run_query.simps)
  from tf h have d: "p0_userProfile (fst (p0_on_user (Some user1) p0_app0 env_off)) = None"
    by (simp del: run_query.simps)
  from h a b c d pr show ?thesis by blast
qed

section \<open>C2: lists in descending order of their date\<close>

lemma toDate_or_self_Some: "\<exists>v'. toDate_or_self (Some v) = Some v' \<and> val_key v' = val_key v"
  by (cases v) auto

lemma toDate_or_self_defined: "\<exists>v'. toDate_or_self (Some v) = Some v'"
  by (cases v) auto

lemma run_query_desc_sorted:
  "sorted_wrt (\<lambda>a b. field_key f b \<le> field_key f a) (run_query (OrderBy p f Desc) d)"
  using sorted_sort_key [of "field_key f" "filter (\<lambda>x. snd x f \<noteq> None) (d p)"]
  by (simp add: sorted_wrt_rev sorted_map)

lemma run_query_desc_has_field:
  "x \<in> set (run_query (OrderBy p f Desc) d) \<Longrightarrow> snd x f \<noteq> None"
  by simp

lemma field_key_le:
  "snd a f = Some x \<Longrightarrow> snd b f = Some y \<Longrightarrow> field_key f b \<le> field_key f a \<Longrightarrow> val_le y x"
  by (auto simp: field_key_def val_le_def)

lemma sorted_desc_map:
  assumes conv: "\<And>d. \<exists>v. snd d f = Some v \<Longrightarrow> \<exists>v v'. snd d f = Some v \<and> g d f = Some v' \<and> val_key v' = val_key v"
  shows "sorted_desc f (map g (run_query (OrderBy p f Desc) d))"
proof -
  let ?ds = "run_query (OrderBy p f Desc) d"
  have "sorted_wrt (\<lambda>a b. case (g a f, g b f) of (Some x, Some y) \<Rightarrow> val_le y x | _ \<Rightarrow> False) ?ds"
  proof (rule sorted_wrt_mono_rel [OF _ run_query_desc_sorted])
    fix a b assume a: "a \<in> set ?ds" and b: "b \<in> set ?ds" and le: "field_key f b \<le> field_key f a"
    from a obtain x x' where x: "snd a f = Some x" "g a f = Some x'" "val_key x' = val_key x"
      using conv [of a] run_query_desc_has_field [OF a] by auto
    from b obtain y y' where y: "snd b f = Some y" "g b f = Some y'" "val_key y' = val_key y"
      using conv [of b] run_query_desc_has_field [OF b] by auto
    from field_key_le [OF x(1) y(1) le] x y
    show "case (g a f, g b f) of (Some x, Some y) \<Rightarrow> val_le y x | _ \<Rightarrow> False"
      by (simp add: val_le_def)
  qed
  then show ?thesis by (simp add: sorted_desc_def sorted_wrt_map)
qed

lemma workouts_sorted: "sorted_desc ''date'' (map AuthService_workout (run_query (OrderBy p ''date'' Desc) d))"
  apply (rule sorted_desc_map)
  using toDate_or_self_Some by (auto simp: AuthService_workout_def)

lemma locations_sorted: "sorted_desc ''savedAt'' (map AuthService_location (run_query (OrderBy p ''savedAt'' Desc) d))"
  apply (rule sorted_desc_map)
  using toDate_or_self_Some by (auto simp: AuthService_location_def)

lemma workouts_dated:
  "x \<in> set (run_query (OrderBy p ''date'' Desc) d) \<Longrightarrow> AuthService_workout x ''date'' \<noteq> None"
  using run_query_desc_has_field [of x p "''date''" d]
  by (auto simp: AuthService_workout_def toDate_or_self_defined simp del: run_query.simps)

lemma locations_dated:
  "x \<in> set (run_query (OrderBy p ''savedAt'' Desc) d) \<Longrightarrow> AuthService_location x ''savedAt'' \<noteq> None"
  using run_query_desc_has_field [of x p "''savedAt''" d]
  by (auto simp: AuthService_location_def toDate_or_self_defined simp del: run_query.simps)

text \<open>
  C2: whenever the facade's \<open>loadWorkouts\<close> returns a list, the list is in descending
  order of the field \<open>date\<close>, and whenever \<open>loadLocations\<close> returns one, it is in
  descending order of \<open>savedAt\<close>; both return a list whenever the store answers.
\<close>

theorem C2_sorted:
  "(fst (AuthService_loadWorkouts u e) = Inr ws \<longrightarrow>
      sorted_desc ''date'' ws \<and> (\<forall>w \<in> set ws. w ''date'' \<noteq> None))
   \<and> (fst (AuthService_loadLocations u e) = Inr ls \<longrightarrow>
      sorted_desc ''savedAt'' ls \<and> (\<forall>l \<in> set ls. l ''savedAt'' \<noteq> None))
   \<and> (\<not> fails e (calls e) \<longrightarrow>
      (\<exists>ws. fst (AuthService_loadWorkouts u e) = Inr ws) \<and> (\<exists>ls. fst (AuthService_loadLocations u e) = Inr ls))"
  using workouts_sorted locations_sorted workouts_dated locations_dated
  by (auto simp: AuthService_loadWorkouts_def AuthService_loadLocations_def getDocs_def Let_def
      split: if_splits simp del: run_query.simps)

theorem C2_sorted_witness:
  "fst (AuthService_loadWorkouts ''u1'' env3) =
     Inr [[''id'' \<mapsto> VStr ''w2'', ''name'' \<mapsto> VStr ''Swim'', ''date'' \<mapsto> VDate 200],
          [''id'' \<mapsto> VStr ''w1'', ''name'' \<mapsto> VStr ''Run'', ''date'' \<mapsto> VDate 100]]
   \<and> sorted_desc ''date''
        [[''id'' \<mapsto> VStr ''w2'', ''name'' \<mapsto> VStr ''Swim'', ''date'' \<mapsto> VDate 200],
         [''id'' \<mapsto> VStr ''w1'', ''name'' \<mapsto> VStr ''Run'', ''date'' \<mapsto> VDate 100]]
   \<and> (\<exists>ls. fst (AuthService_loadLocations ''u1'' env3) = Inr ls \<and> sorted_desc ''savedAt'' ls)"
proof -
  have w: "fst (AuthService_loadWorkouts ''u1'' env3) =
     Inr [[''id'' \<mapsto> VStr ''w2'', ''name'' \<mapsto> VStr ''Swim'', ''date'' \<mapsto> VDate 200],
          [''id'' \<mapsto> VStr ''w1'', ''name'' \<mapsto> VStr ''Run'', ''date'' \<mapsto> VDate 100]]"
    by (simp add: AuthService_loadWorkouts_def getDocs_def env3_def env1_def env0_def field_key_def
        AuthService_workout_def fun_eq_iff map_add_def)
  have f: "\<not> fails env3 (calls env3)"
    by (simp add: env3_def env1_def env0_def)
  show ?thesis
    using C2_sorted [of "''u1''" env3
        "[[''id'' \<mapsto> VStr ''w2'', ''name'' \<mapsto> VStr ''Swim'', ''date'' \<mapsto> VDate 200],
          [''id'' \<mapsto> VStr ''w1'', ''name'' \<mapsto> VStr ''Run'', ''date'' \<mapsto> VDate 100]]"] w f
    by blast
qed

section \<open>C3: a list load that fails\<close>

text \<open>
  C3, as stated, for the service variant: after a failed load the list would be empty.
  The controller's catch block only logs: after a load that succeeds and a second one
  that fails, the list still shows the two records of the first.
\<close>

theorem C3_counterexample:
  "workouts (fst (AppComponent_loadWorkouts app1 env4)) = [swim_rec, run_rec]
   \<and> fst (AuthService_loadWorkouts ''u1'' (snd (AppComponent_loadWorkouts app1 env4))) = Inl StoreError
   \<and> workouts (fst (AppComponent_loadWorkouts (fst (AppComponent_loadWorkouts app1 env4))
                     (snd (AppComponent_loadWorkouts app1 env4)))) = [swim_rec, run_rec]"
  by (simp add: AppComponent_loadWorkouts_def AuthService_loadWorkouts_def getDocs_def uid_of_def
      AuthService_workout_def field_key_def map_add_def fun_eq_iff swim_rec_def run_rec_def
      app1_def app0_def env4_def env3_def env1_def env0_def)

text \<open>
  C3, amended: when the store call of a list load is lost, the monolithic variant's
  controller sets the list to the empty list, and the service variant's controller
  leaves its whole state, the list with it, as it was; no error leaves either
  controller.
\<close>

theorem C3_failed_load:
  "(uid_of (userData s) = Some u \<and> fails e (calls e) \<longrightarrow>
      fst (AuthService_loadWorkouts u e) = Inl StoreError
      \<and> fst (AuthService_loadLocations u e) = Inl StoreError
      \<and> fst (AppComponent_loadWorkouts s e) = s \<and> fst (AppComponent_loadLocations s e) = s)
   \<and> (fails e (calls e) \<longrightarrow>
      p0_workouts (fst (p0_loadWorkouts t e)) = []
      \<and> p0_savedLocations (fst (p0_loadSavedLocations t e)) = [])"
  by (simp add: AppComponent_loadWorkouts_def AppComponent_loadLocations_def
      AuthService_loadWorkouts_def AuthService_loadLocations_def p0_loadWorkouts_defs
      p0_loadSavedLocations_defs getDocs_def Let_def split: option.splits)

theorem C3_failed_load_witness:
  "uid_of (userData app1) = Some ''u1'' \<and> fails env_down (calls env_down)
   \<and> fst (AppComponent_loadWorkouts app1 env_down) = app1
   \<and> p0_workouts p0_app1 = [shown1]
   \<and> p0_workouts (fst (p0_loadWorkouts p0_app1 env_down)) = []
   \<and> p0_savedLocations (fst (p0_loadSavedLocations p0_app1 env_down)) = []"
  using C3_failed_load [of app1 "''u1''" env_down p0_app1]
  by (simp add: uid_of_def app1_def app0_def env_down_def env1_def env0_def p0_app1_def p0_app0_def)

section \<open>C4: a saved location, loaded again\<close>

lemma run_query_desc_set:
  "set (run_query (OrderBy p f Desc) d) = {x \<in> set (d p). snd x f \<noteq> None}"
  by auto

lemma saved_location_loaded:
  assumes "\<not> fails e (calls e)" and "\<not> fails e (Suc (calls e))"
  shows "\<exists>e1 ls e2 d.
           AuthService_saveLocation u (location_obj l) e = (Inr (autoId e (calls e)), e1)
         \<and> AuthService_loadLocations u e1 = (Inr ls, e2)
         \<and> map_of (db e1 [''users'', u, ''locations'']) (autoId e (calls e)) = Some d
         \<and> AuthService_location (autoId e (calls e), d) \<in> set ls
         \<and> AuthService_location (autoId e (calls e), d) ''latitude'' = Some (VNum (loc_latitude l))
         \<and> AuthService_location (autoId e (calls e), d) ''longitude'' = Some (VNum (loc_longitude l))
         \<and> AuthService_location (autoId e (calls e), d) ''accuracy'' = Some (VNum (loc_accuracy l))
         \<and> AuthService_location (autoId e (calls e), d) ''savedAt'' = Some (VDate (clock e (ticks e)))"
proof -
  let ?p = "[''users'', u, ''locations'']"
  let ?i = "autoId e (calls e)"
  define d where "d = stored ((location_obj l)(''savedAt'' \<mapsto> VDate (clock e (ticks e))))"
  define e1 where "e1 = put ?p ?i d (e\<lparr>ticks := Suc (ticks e), calls := Suc (calls e)\<rparr>)"
  have save: "AuthService_saveLocation u (location_obj l) e = (Inr ?i, e1)"
    using assms(1) by (simp add: AuthService_saveLocation_def addDoc_def new_Date_def e1_def d_def)
  have f1: "\<not> fails e1 (calls e1)" using assms(2) by (simp add: e1_def put_def)
  define ls where "ls = map AuthService_location (run_query (OrderBy ?p ''savedAt'' Desc) (db e1))"
  have load: "AuthService_loadLocations u e1 = (Inr ls, e1\<lparr>calls := Suc (calls e1)\<rparr>)"
    using f1 by (simp add: AuthService_loadLocations_def getDocs_def ls_def del: run_query.simps)
  have m: "map_of (db e1 ?p) ?i = Some d" by (simp add: e1_def map_of_put)
  have "(?i, d) \<in> set (db e1 ?p)" by (simp add: e1_def put_def)
  moreover have "d ''savedAt'' \<noteq> None" by (simp add: d_def stored_def)
  ultimately have "(?i, d) \<in> set (run_query (OrderBy ?p ''savedAt'' Desc) (db e1))"
    unfolding run_query_desc_set by simp
  then have mem: "AuthService_location (?i, d) \<in> set ls"
    unfolding ls_def by (simp del: run_query.simps)
  have flds: "AuthService_location (?i, d) ''latitude'' = Some (VNum (loc_latitude l))"
    "AuthService_location (?i, d) ''longitude'' = Some (VNum (loc_longitude l))"
    "AuthService_location (?i, d) ''accuracy'' = Some (VNum (loc_accuracy l))"
    "AuthService_location (?i, d) ''savedAt'' = Some (VDate (clock e (ticks e)))"
    by (simp_all add: AuthService_location_def d_def stored_def location_obj_def map_add_def)
  from save load m mem flds show ?thesis by blast
qed


lemma is_timestampE: "is_timestamp x \<Longrightarrow> \<exists>t. x = Some (VTimestamp t)"
  by (cases x rule: is_timestamp.cases) auto

lemma p0_location_stamped:
  assumes "stamped d"
  shows "\<exists>r. p0_location d e = (Inr r, e) \<and> r ''id'' = Some (VStr (fst d))
           \<and> r ''latitude'' = Some (js_or (snd d ''latitude'') (VNum 0))
           \<and> r ''longitude'' = Some (js_or (snd d ''longitude'') (VNum 0))
           \<and> r ''accuracy'' = Some (js_or (snd d ''accuracy'') (VNum 0))
           \<and> r ''savedAt'' = toDate_or_self (snd d ''savedAt'')"
proof -
  from assms obtain t t' where "snd d ''timestamp'' = Some (VTimestamp t)" "snd d ''savedAt'' = Some (VTimestamp t')"
    unfolding stamped_def using is_timestampE by blast
  then show ?thesis by (simp add: p0_location_def)
qed

lemma list_all2_memD:
  "list_all2 P xs ys \<Longrightarrow> x \<in> set xs \<Longrightarrow> \<exists>y \<in> set ys. P x y"
  by (induction rule: list_all2_induct) auto

lemma p0_locationsData_stamped:
  "\<forall>d \<in> set docs. stamped d \<Longrightarrow>
     \<exists>ls. p0_locationsData docs e = (Inr ls, e) \<and> list_all2 (\<lambda>d r. p0_location d e = (Inr r, e)) docs ls"
proof (induction docs)
  case Nil
  then show ?case by simp
next
  case (Cons d docs)
  then obtain ls where ls: "p0_locationsData docs e = (Inr ls, e)"
      "list_all2 (\<lambda>d r. p0_location d e = (Inr r, e)) docs ls" by auto
  from Cons.prems obtain r where r: "p0_location d e = (Inr r, e)"
    using p0_location_stamped [of d e] by auto
  from ls r show ?case by simp
qed

lemma js_or_num: "js_or (Some (VNum x)) (VNum 0) = VNum x"
  by (simp add: js_or_def)

lemma p0_saved_location_loaded:
  assumes cu: "currentUser e = Some user" and cl: "p0_currentLocation s = Some l"
    and f0: "\<not> fails e (calls e)" and f1: "\<not> fails e (Suc (calls e))"
    and st: "\<forall>d \<in> set (db e [''users'', uid user, ''locations'']). stamped d"
  shows "\<exists>r \<in> set (p0_savedLocations (fst (p0_saveLocation s e))).
             r ''id'' = Some (VStr (autoId e (calls e)))
           \<and> r ''latitude'' = Some (VNum (loc_latitude l))
           \<and> r ''longitude'' = Some (VNum (loc_longitude l))
           \<and> r ''accuracy'' = Some (VNum (loc_accuracy l))
           \<and> r ''savedAt'' = Some (VDate (clock e (ticks e)))"
proof -
  let ?p = "[''users'', uid user, ''locations'']"
  let ?i = "autoId e (calls e)"
  define d where "d = stored [''latitude'' \<mapsto> VNum (loc_latitude l),
                       ''longitude'' \<mapsto> VNum (loc_longitude l),
                       ''accuracy'' \<mapsto> VNum (loc_accuracy l),
                       ''timestamp'' \<mapsto> VDate (loc_timestamp l),
                       ''savedAt'' \<mapsto> VDate (clock e (ticks e))]"
  define e1 where "e1 = put ?p ?i d (e\<lparr>ticks := Suc (ticks e), calls := Suc (calls e)\<rparr>)"
  have save: "p0_saveLocation s e = p0_loadSavedLocations s e1"
    using cu cl f0 by (simp add: p0_saveLocation_def addDoc_def new_Date_def e1_def d_def)
  define docs where "docs = run_query (OrderBy ?p ''savedAt'' Desc) (db e1)"
  have sd: "stamped (?i, d)" by (simp add: stamped_def d_def stored_def)
  have "\<forall>x \<in> set (db e1 ?p). stamped x" using st sd by (auto simp: e1_def put_def)
  then have all: "\<forall>x \<in> set docs. stamped x" unfolding docs_def run_query_desc_set by simp
  have "(?i, d) \<in> set (db e1 ?p)" by (simp add: e1_def put_def)
  moreover have "d ''savedAt'' \<noteq> None" by (simp add: d_def stored_def)
  ultimately have mem: "(?i, d) \<in> set docs" unfolding docs_def run_query_desc_set by simp
  define e2 where "e2 = e1\<lparr>calls := Suc (calls e1)\<rparr>"
  from p0_locationsData_stamped [OF all, of e2] obtain ls where
    ls: "p0_locationsData docs e2 = (Inr ls, e2)" "list_all2 (\<lambda>d r. p0_location d e2 = (Inr r, e2)) docs ls"
    by blast
  have cu1: "currentUser e1 = Some user" and f1': "\<not> fails e1 (calls e1)"
    using cu f1 by (simp_all add: e1_def put_def)
  have "getDocs (OrderBy ?p ''savedAt'' Desc) e1 = (Inr docs, e2)"
    using f1' by (simp add: getDocs_def docs_def e2_def del: run_query.simps)
  then have "fst (p0_loadSavedLocations s e1) = s\<lparr>p0_savedLocations := ls\<rparr>"
    using cu1 ls(1) by (simp add: p0_loadSavedLocations_defs)
  with save have res: "p0_savedLocations (fst (p0_saveLocation s e)) = ls" by simp
  from list_all2_memD [OF ls(2) mem] obtain r where r: "r \<in> set ls" "p0_location (?i, d) e2 = (Inr r, e2)"
    by blast
  from p0_location_stamped [OF sd, of e2] r(2)
  have "r ''id'' = Some (VStr ?i)" "r ''latitude'' = Some (VNum (loc_latitude l))"
    "r ''longitude'' = Some (VNum (loc_longitude l))" "r ''accuracy'' = Some (VNum (loc_accuracy l))"
    "r ''savedAt'' = Some (VDate (clock e (ticks e)))"
    by (auto simp: d_def stored_def js_or_num)
  with r(1) res show ?thesis by auto
qed


text \<open>
  C4: when the store answers both calls, the list that \<open>loadLocations\<close> returns after
  \<open>saveLocation\<close> of a captured location holds the record of the new document, with
  the latitude, longitude and accuracy of the captured value and, as its save
  timestamp, the reading of the clock made by the save (whatever the captured value's
  own). In the monolithic variant the controller's list holds it after its
  \<open>saveLocation\<close>, the collection's documents being as the client writes them.
\<close>

theorem C4_location_round_trip:
  "(\<not> fails e (calls e) \<and> \<not> fails e (Suc (calls e)) \<longrightarrow>
      (\<exists>e1 ls e2 d.
           AuthService_saveLocation u (location_obj l) e = (Inr (autoId e (calls e)), e1)
         \<and> AuthService_loadLocations u e1 = (Inr ls, e2)
         \<and> map_of (db e1 [''users'', u, ''locations'']) (autoId e (calls e)) = Some d
         \<and> AuthService_location (autoId e (calls e), d) \<in> set ls
         \<and> AuthService_location (autoId e (calls e), d) ''latitude'' = Some (VNum (loc_latitude l))
         \<and> AuthService_location (autoId e (calls e), d) ''longitude'' = Some (VNum (loc_longitude l))
         \<and> AuthService_location (autoId e (calls e), d) ''accuracy'' = Some (VNum (loc_accuracy l))
         \<and> AuthService_location (autoId e (calls e), d) ''savedAt'' = Some (VDate (clock e (ticks e)))))
   \<and> (currentUser e = Some user \<and> p0_currentLocation t = Some l
        \<and> \<not> fails e (calls e) \<and> \<not> fails e (Suc (calls e))
        \<and> (\<forall>d \<in> set (db e [''users'', uid user, ''locations'']). stamped d) \<longrightarrow>
      (\<exists>r \<in> set (p0_savedLocations (fst (p0_saveLocation t e))).
             r ''id'' = Some (VStr (autoId e (calls e)))
           \<and> r ''latitude'' = Some (VNum (loc_latitude l))
           \<and> r ''longitude'' = Some (VNum (loc_longitude l))
           \<and> r ''accuracy'' = Some (VNum (loc_accuracy l))
           \<and> r ''savedAt'' = Some (VDate (clock e (ticks e)))))"
  using saved_location_loaded [where e = e and l = l and u = u]
    p0_saved_location_loaded [where e = e and user = user and s = t and l = l]
  by blast

theorem C4_location_round_trip_witness:
  "loc_savedAt loc1 = 950
   \<and> (\<exists>e1 ls e2 d.
           AuthService_saveLocation ''u1'' (location_obj loc1) env1 = (Inr ''doc'', e1)
         \<and> AuthService_loadLocations ''u1'' e1 = (Inr ls, e2)
         \<and> map_of (db e1 [''users'', ''u1'', ''locations'']) ''doc'' = Some d
         \<and> AuthService_location (''doc'', d) \<in> set ls
         \<and> AuthService_location (''doc'', d) ''latitude'' = Some (VNum 48.5)
         \<and> AuthService_location (''doc'', d) ''longitude'' = Some (VNum 2.25)
         \<and> AuthService_location (''doc'', d) ''accuracy'' = Some (VNum 10)
         \<and> AuthService_location (''doc'', d) ''savedAt'' = Some (VDate 1000))
   \<and> (\<exists>r \<in> set (p0_savedLocations (fst (p0_saveLocation p0_app2 env1))).
             r ''id'' = Some (VStr ''doc'')
           \<and> r ''latitude'' = Some (VNum 48.5)
           \<and> r ''longitude'' = Some (VNum 2.25)
           \<and> r ''accuracy'' = Some (VNum 10)
           \<and> r ''savedAt'' = Some (VDate 1000))"
  using C4_location_round_trip [of env1 "''u1''" loc1 user1 p0_app2]
  by (simp add: env1_def env0_def user1_def loc1_def p0_app2_def)

section \<open>C5: a wrong password\<close>

text \<open>
  C5, as stated, for the monolithic variant: the message would be exactly
  "Incorrect password.". It is not: the monolithic variant's messages carry no full stop.
\<close>

theorem C5_counterexample:
  "verdict env0 (p0_loginEmail p0_app0) (p0_loginPassword p0_app0) = Inl ''auth/wrong-password''
   \<and> p0_loginError (fst (p0_onLogin p0_app0 env0)) \<noteq> ''Incorrect password.''"
  by (simp add: p0_onLogin_def signInWithEmailAndPassword_def p0_getAuthErrorMessage_def
      env0_def p0_app0_def)

text \<open>
  C5, amended: when the provider refuses the sign-in with the wrong-password error, the
  service variant's controller sets the login error to "Incorrect password." and the
  monolithic variant's (both fields non-empty, so that the sign-in is attempted) to
  "Incorrect password"; in both nothing else of the controller's state changes and the
  environment, the session with it, is as before.
\<close>

theorem C5_wrong_password:
  "(verdict e (loginEmail s) (loginPassword s) = Inl ''auth/wrong-password'' \<longrightarrow>
      AppComponent_onLogin s e = (s\<lparr>loginError := ''Incorrect password.''\<rparr>, e))
   \<and> (verdict e (p0_loginEmail t) (p0_loginPassword t) = Inl ''auth/wrong-password''
        \<and> p0_loginEmail t \<noteq> [] \<and> p0_loginPassword t \<noteq> [] \<longrightarrow>
      p0_onLogin t e = (t\<lparr>p0_loginError := ''Incorrect password''\<rparr>, e))"
  by (simp add: AppComponent_onLogin_def AuthService_login_def p0_onLogin_def
      signInWithEmailAndPassword_def AppComponent_getAuthErrorMessage_def
      p0_getAuthErrorMessage_def)

theorem C5_wrong_password_witness:
  "AppComponent_onLogin app0 env0 = (app0\<lparr>loginError := ''Incorrect password.''\<rparr>, env0)
   \<and> p0_onLogin p0_app0 env0 = (p0_app0\<lparr>p0_loginError := ''Incorrect password''\<rparr>, env0)
   \<and> currentUser env0 = None \<and> userData app0 = None \<and> p0_userProfile p0_app0 = None"
  using C5_wrong_password [of env0 app0 p0_app0]
  by (simp add: env0_def app0_def p0_app0_def)

section \<open>C6: an empty collection\<close>

text \<open>
  C6: for a user whose workouts collection is empty, \<open>loadWorkouts\<close> answers with the
  empty list and not with an error, and so does \<open>loadLocations\<close> for an empty locations
  collection. In the service variant this is the facade's result whenever the store
  answers the query; in the monolithic variant the controller's list is empty after
  the load.
\<close>

theorem C6_empty_collection:
  "(\<not> fails e (calls e) \<and> db e [''users'', u, ''workouts''] = [] \<longrightarrow>
      fst (AuthService_loadWorkouts u e) = Inr [])
   \<and> (\<not> fails e (calls e) \<and> db e [''users'', u, ''locations''] = [] \<longrightarrow>
      fst (AuthService_loadLocations u e) = Inr [])
   \<and> (currentUser e = Some user \<and> db e [''users'', uid user, ''workouts''] = [] \<longrightarrow>
      p0_workouts (fst (p0_loadWorkouts t e)) = [])
   \<and> (currentUser e = Some user \<and> db e [''users'', uid user, ''locations''] = [] \<longrightarrow>
      p0_savedLocations (fst (p0_loadSavedLocations t e)) = [])"
  by (simp add: AuthService_loadWorkouts_def AuthService_loadLocations_def p0_loadWorkouts_defs
      p0_loadSavedLocations_defs getDocs_def Let_def)

theorem C6_empty_collection_witness:
  "\<not> fails env1 (calls env1) \<and> db env1 [''users'', ''u1'', ''workouts''] = []
   \<and> db env1 [''users'', ''u1'', ''locations''] = [] \<and> currentUser env1 = Some user1
   \<and> fst (AuthService_loadWorkouts ''u1'' env1) = Inr []
   \<and> fst (AuthService_loadLocations ''u1'' env1) = Inr []
   \<and> p0_workouts (fst (p0_loadWorkouts p0_app1 env1)) = []
   \<and> p0_savedLocations (fst (p0_loadSavedLocations p0_app1 env1)) = []"
  using C6_empty_collection [of env1 "''u1''" user1 p0_app1]
  by (simp add: env1_def env0_def user1_def)

section \<open>C7: the position request\<close>

text \<open>
  C7, as stated, for the service variant: the request would carry an explicit
  configuration. It is made with the two callbacks only.
\<close>

theorem C7_counterexample:
  "geolocation env0 \<and> requests env0 = []
   \<and> requests (snd (AppComponent_getCurrentLocation app0 env0)) = [None]"
  by (simp add: AppComponent_getCurrentLocation_def getCurrentPosition_def new_Date_def env0_def)

text \<open>
  C7, amended: where the device location API exists, a capture issues exactly one
  single-shot request; the monolithic variant makes it with high accuracy, a timeout
  of 10000 ms and a maximum age of 60000 ms, the service variant with no options.
  Where the API does not exist, no request is issued.
\<close>

theorem C7_one_request:
  "(geolocation e \<longrightarrow>
      requests (snd (p0_getCurrentLocation t e)) =
        requests e @ [Some \<lparr>enableHighAccuracy = True, timeout = 10000, maximumAge = 60000\<rparr>]
      \<and> requests (snd (AppComponent_getCurrentLocation s e)) = requests e @ [None])
   \<and> (\<not> geolocation e \<longrightarrow>
      requests (snd (p0_getCurrentLocation t e)) = requests e
      \<and> requests (snd (AppComponent_getCurrentLocation s e)) = requests e)"
  by (simp add: p0_getCurrentLocation_def AppComponent_getCurrentLocation_def
      getCurrentPosition_def new_Date_def Let_def split: sum.splits)

theorem C7_one_request_witness:
  "geolocation env0
   \<and> requests (snd (p0_getCurrentLocation p0_app0 env0)) =
       [Some \<lparr>enableHighAccuracy = True, timeout = 10000, maximumAge = 60000\<rparr>]
   \<and> requests (snd (AppComponent_getCurrentLocation app0 env0)) = [None]
   \<and> \<not> geolocation (env0\<lparr>geolocation := False\<rparr>)
   \<and> requests (snd (p0_getCurrentLocation p0_app0 (env0\<lparr>geolocation := False\<rparr>))) = []"
  using C7_one_request [of env0 p0_app0 app0]
    C7_one_request [of "env0\<lparr>geolocation := False\<rparr>" p0_app0 app0]
  by (simp add: env0_def)

section \<open>C8: the profile update is a merge\<close>

text \<open>
  C8: \<open>updateUserProfile\<close> writes the user name (and, in the service variant, the
  display name) into the user's document as a merge: every other field of the
  document, every other document and every other collection are as before. The
  monolithic variant's method takes the fields to write; no field outside them changes.
\<close>

theorem C8_profile_merge:
  "(\<forall>i k. k \<noteq> ''username'' \<and> k \<noteq> ''displayName'' \<longrightarrow>
       doc_field (snd (AuthService_updateUserProfile u name e)) [''users''] i k = doc_field e [''users''] i k)
   \<and> (\<forall>p. p \<noteq> [''users''] \<longrightarrow> db (snd (AuthService_updateUserProfile u name e)) p = db e p)
   \<and> (\<forall>i. i \<noteq> u \<longrightarrow>
        map_of (db (snd (AuthService_updateUserProfile u name e)) [''users'']) i = map_of (db e [''users'']) i)
   \<and> (fst (AuthService_updateUserProfile u name e) = Inr () \<longrightarrow>
        doc_field (snd (AuthService_updateUserProfile u name e)) [''users''] u ''username'' = Some (VStr name)
      \<and> doc_field (snd (AuthService_updateUserProfile u name e)) [''users''] u ''displayName'' = Some (VStr name))
   \<and> (\<forall>i k. updates k = None \<longrightarrow>
        doc_field (snd (p0_updateUserProfile updates t e)) [''users''] i k = doc_field e [''users''] i k)
   \<and> (\<forall>p. p \<noteq> [''users''] \<longrightarrow> db (snd (p0_updateUserProfile updates t e)) p = db e p)"
  by (auto simp: AuthService_updateUserProfile_def p0_updateUserProfile_def updateProfile_def
      setDoc_merge_def updateDoc_def Let_def doc_field_def stored_def map_add_def map_of_put
      db_put_other split: option.splits)

theorem C8_profile_merge_witness:
  "fst (AuthService_updateUserProfile ''u1'' ''Bea'' env2) = Inr ()
   \<and> doc_field (snd (AuthService_updateUserProfile ''u1'' ''Bea'' env2)) [''users''] ''u1'' ''username'' = Some (VStr ''Bea'')
   \<and> doc_field (snd (AuthService_updateUserProfile ''u1'' ''Bea'' env2)) [''users''] ''u1'' ''email'' = Some (VStr ''ana@x.com'')
   \<and> doc_field (snd (AuthService_updateUserProfile ''u1'' ''Bea'' env2)) [''users''] ''u1'' ''createdAt'' = Some (VTimestamp 500)
   \<and> doc_field (snd (AuthService_updateUserProfile ''u1'' ''Bea'' env2)) [''users''] ''u1'' ''isPremium'' = Some (VBool True)
   \<and> doc_field (snd (AuthService_updateUserProfile ''u1'' ''Bea'' env2)) [''users''] ''u1'' ''uid'' = Some (VStr ''u1'')
   \<and> doc_field (snd (p0_updateUserProfile [''username'' \<mapsto> VStr ''Bea''] p0_app1 env2)) [''users''] ''u1'' ''username'' = Some (VStr ''Bea'')
   \<and> doc_field (snd (p0_updateUserProfile [''username'' \<mapsto> VStr ''Bea''] p0_app1 env2)) [''users''] ''u1'' ''isPremium'' = Some (VBool True)
   \<and> doc_field (snd (p0_updateUserProfile [''username'' \<mapsto> VStr ''Bea''] p0_app1 env2)) [''users''] ''u1'' ''id'' = Some (VStr ''u1'')"
  using C8_profile_merge [of "''u1''" "''Bea''" env2 "[''username'' \<mapsto> VStr ''Bea'']" p0_app1]
  by (simp add: AuthService_updateUserProfile_def p0_updateUserProfile_def updateProfile_def
      setDoc_merge_def updateDoc_def put_def stored_def doc_field_def map_add_def env2_def env1_def
      env0_def user1_def user_doc1_def p0_app1_def p0_app0_def)

section \<open>C9: a delete, then the reload\<close>

lemma split_slash_plain: "CHR ''/'' \<notin> set x \<Longrightarrow> split_slash x = [x]"
  by (induction x) auto

lemma double_slash_plain: "CHR ''/'' \<notin> set x \<Longrightarrow> \<not> double_slash x"
  by (induction x rule: double_slash.induct) auto

lemma doc_workouts:
  "plain u \<Longrightarrow> plain i \<Longrightarrow> doc [''users'', u, ''workouts'', i] = Inr ([''users'', u, ''workouts''], i)"
  by (simp add: doc_def plain_def split_slash_plain double_slash_plain Let_def)

lemma doc_locations:
  "plain u \<Longrightarrow> plain i \<Longrightarrow> doc [''users'', u, ''locations'', i] = Inr ([''users'', u, ''locations''], i)"
  by (simp add: doc_def plain_def split_slash_plain double_slash_plain Let_def)

lemma doc_empty_id:
  "plain u \<Longrightarrow> doc [''users'', u, ''workouts'', []] = Inl InvalidArgument"
  "plain u \<Longrightarrow> doc [''users'', u, ''locations'', []] = Inl InvalidArgument"
  by (simp_all add: doc_def plain_def split_slash_plain double_slash_plain Let_def)

lemma run_query_without:
  "i \<notin> fst ` set (run_query (OrderBy p f Desc) (without p i d))"
  by (auto simp: without_def)

lemma AppComponent_deleteWorkout_cases:
  assumes "uid_of (userData s) = Some u" and "plain u" and "plain i"
  shows "\<not> fails e (calls e) \<Longrightarrow> \<not> fails e (Suc (calls e)) \<Longrightarrow>
           AppComponent_deleteWorkout i s e =
             (s\<lparr>workouts := map AuthService_workout
                    (run_query (OrderBy [''users'', u, ''workouts''] ''date'' Desc)
                       (without [''users'', u, ''workouts''] i (db e)))\<rparr>,
              e\<lparr>calls := Suc (Suc (calls e)), db := without [''users'', u, ''workouts''] i (db e)\<rparr>)"
    and "\<not> fails e (calls e) \<Longrightarrow> fails e (Suc (calls e)) \<Longrightarrow>
           AppComponent_deleteWorkout i s e =
             (s, e\<lparr>calls := Suc (Suc (calls e)), db := without [''users'', u, ''workouts''] i (db e)\<rparr>)"
    and "fails e (calls e) \<Longrightarrow> AppComponent_deleteWorkout i s e = (s, e\<lparr>calls := Suc (calls e)\<rparr>)"
    and "AppComponent_deleteWorkout [] s e = (s, e)"
  using assms
  by (simp_all add: AppComponent_deleteWorkout_def AuthService_deleteWorkout_def doc_workouts doc_empty_id
      deleteDoc_def AppComponent_loadWorkouts_def AuthService_loadWorkouts_def getDocs_def without_def
      del: run_query.simps)

lemma AppComponent_deleteLocation_cases:
  assumes "uid_of (userData s) = Some u" and "plain u" and "plain i"
  shows "\<not> fails e (calls e) \<Longrightarrow> \<not> fails e (Suc (calls e)) \<Longrightarrow>
           AppComponent_deleteLocation i s e =
             (s\<lparr>savedLocations := map AuthService_location
                    (run_query (OrderBy [''users'', u, ''locations''] ''savedAt'' Desc)
                       (without [''users'', u, ''locations''] i (db e)))\<rparr>,
              e\<lparr>calls := Suc (Suc (calls e)), db := without [''users'', u, ''locations''] i (db e)\<rparr>)"
    and "\<not> fails e (calls e) \<Longrightarrow> fails e (Suc (calls e)) \<Longrightarrow>
           AppComponent_deleteLocation i s e =
             (s, e\<lparr>calls := Suc (Suc (calls e)), db := without [''users'', u, ''locations''] i (db e)\<rparr>)"
    and "fails e (calls e) \<Longrightarrow> AppComponent_deleteLocation i s e = (s, e\<lparr>calls := Suc (calls e)\<rparr>)"
    and "AppComponent_deleteLocation [] s e = (s, e)"
  using assms
  by (simp_all add: AppComponent_deleteLocation_def AuthService_deleteLocation_def doc_locations doc_empty_id
      deleteDoc_def AppComponent_loadLocations_def AuthService_loadLocations_def getDocs_def without_def
      del: run_query.simps)

lemma p0_workout_id: "p0_workout d e = (Inr r, e') \<Longrightarrow> r ''id'' = Some (VStr (fst d))"
  by (auto simp: p0_workout_def split: prod.splits sum.splits)

lemma p0_workoutsData_ids:
  "p0_workoutsData docs e = (Inr ws, e') \<Longrightarrow> \<forall>r \<in> set ws. \<exists>d \<in> set docs. r ''id'' = Some (VStr (fst d))"
proof (induction docs arbitrary: e ws e')
  case Nil
  then show ?case by simp
next
  case (Cons d docs)
  from Cons.prems obtain w e1 ws' where
    w: "p0_workout d e = (Inr w, e1)" and ws': "p0_workoutsData docs e1 = (Inr ws', e')" and eq: "ws = w # ws'"
    by (auto split: prod.splits sum.splits)
  from Cons.IH [OF ws'] p0_workout_id [OF w] eq show ?case by auto
qed

lemma p0_loadWorkouts_ids:
  assumes "currentUser e = Some user"
  shows "\<forall>r \<in> set (p0_workouts (fst (p0_loadWorkouts s e))).
           \<exists>d \<in> set (db e [''users'', uid user, ''workouts'']). r ''id'' = Some (VStr (fst d))"
proof -
  let ?q = "OrderBy [''users'', uid user, ''workouts''] ''date'' Desc"
  obtain r1 e1 where g: "getDocs ?q e = (r1, e1)" by (cases "getDocs ?q e")
  show ?thesis
  proof (cases r1)
    case (Inl err)
    with assms g show ?thesis by (simp add: p0_loadWorkouts_defs)
  next
    case (Inr docs)
    with g have docs: "set docs \<subseteq> set (db e [''users'', uid user, ''workouts''])"
      by (auto simp: getDocs_def Let_def split: if_splits)
    obtain r2 e2 where w: "p0_workoutsData docs e1 = (r2, e2)" by (cases "p0_workoutsData docs e1")
    show ?thesis
    proof (cases r2)
      case (Inl err)
      with assms g Inr w show ?thesis by (simp add: p0_loadWorkouts_defs)
    next
      case r2: (Inr ws)
      with assms g Inr w have "p0_workouts (fst (p0_loadWorkouts s e)) = ws" by (simp add: p0_loadWorkouts_defs)
      with p0_workoutsData_ids [of docs e1 ws e2] w r2 docs show ?thesis by blast
    qed
  qed
qed


lemma p0_deleteWorkout_cases:
  assumes "currentUser e = Some user" and "plain (uid user)" and "plain i"
  shows "\<not> fails e (calls e) \<Longrightarrow>
           p0_deleteWorkout i t e =
             p0_loadWorkouts t (e\<lparr>calls := Suc (calls e), db := without [''users'', uid user, ''workouts''] i (db e)\<rparr>)"
    and "\<not> fails e (calls e) \<Longrightarrow>
           \<forall>r \<in> set (p0_workouts (fst (p0_deleteWorkout i t e))). r ''id'' \<noteq> Some (VStr i)"
    and "fails e (calls e) \<Longrightarrow> p0_deleteWorkout i t e = (t, e\<lparr>calls := Suc (calls e)\<rparr>)"
    and "p0_deleteWorkout [] t e = (t, e)"
proof -
  let ?p = "[''users'', uid user, ''workouts'']"
  let ?e1 = "e\<lparr>calls := Suc (calls e), db := without ?p i (db e)\<rparr>"
  show a: "\<not> fails e (calls e) \<Longrightarrow> p0_deleteWorkout i t e = p0_loadWorkouts t ?e1"
    using assms by (simp add: p0_deleteWorkout_def doc_workouts deleteDoc_def without_def)
  show "fails e (calls e) \<Longrightarrow> p0_deleteWorkout i t e = (t, e\<lparr>calls := Suc (calls e)\<rparr>)"
    using assms by (simp add: p0_deleteWorkout_def doc_workouts deleteDoc_def)
  show "p0_deleteWorkout [] t e = (t, e)"
    using assms by (simp add: p0_deleteWorkout_def doc_empty_id)
  show "\<forall>r \<in> set (p0_workouts (fst (p0_deleteWorkout i t e))). r ''id'' \<noteq> Some (VStr i)"
    if "\<not> fails e (calls e)"
  proof -
    have "currentUser ?e1 = Some user" using assms(1) by simp
    moreover have "\<forall>d \<in> set (db ?e1 ?p). fst d \<noteq> i" by (simp add: without_def)
    ultimately show ?thesis using p0_loadWorkouts_ids [of ?e1 user t] a [OF that] by fastforce
  qed
qed

lemma p0_location_id: "p0_location d e = (Inr r, e') \<Longrightarrow> r ''id'' = Some (VStr (fst d))"
  by (auto simp: p0_location_def split: prod.splits sum.splits)

lemma p0_locationsData_ids:
  "p0_locationsData docs e = (Inr ls, e') \<Longrightarrow> \<forall>r \<in> set ls. \<exists>d \<in> set docs. r ''id'' = Some (VStr (fst d))"
proof (induction docs arbitrary: e ls e')
  case Nil
  then show ?case by simp
next
  case (Cons d docs)
  from Cons.prems obtain l e1 ls' where
    l: "p0_location d e = (Inr l, e1)" and ls': "p0_locationsData docs e1 = (Inr ls', e')" and eq: "ls = l # ls'"
    by (auto split: prod.splits sum.splits)
  from Cons.IH [OF ls'] p0_location_id [OF l] eq show ?case by auto
qed

lemma p0_loadSavedLocations_ids:
  assumes "currentUser e = Some user"
  shows "\<forall>r \<in> set (p0_savedLocations (fst (p0_loadSavedLocations s e))).
           \<exists>d \<in> set (db e [''users'', uid user, ''locations'']). r ''id'' = Some (VStr (fst d))"
proof -
  let ?q = "OrderBy [''users'', uid user, ''locations''] ''savedAt'' Desc"
  obtain r1 e1 where g: "getDocs ?q e = (r1, e1)" by (cases "getDocs ?q e")
  show ?thesis
  proof (cases r1)
    case (Inl err)
    with assms g show ?thesis by (simp add: p0_loadSavedLocations_defs)
  next
    case (Inr docs)
    with g have docs: "set docs \<subseteq> set (db e [''users'', uid user, ''locations''])"
      by (auto simp: getDocs_def Let_def split: if_splits)
    obtain r2 e2 where w: "p0_locationsData docs e1 = (r2, e2)" by (cases "p0_locationsData docs e1")
    show ?thesis
    proof (cases r2)
      case (Inl err)
      with assms g Inr w show ?thesis by (simp add: p0_loadSavedLocations_defs)
    next
      case r2: (Inr ls)
      with assms g Inr w have "p0_savedLocations (fst (p0_loadSavedLocations s e)) = ls"
        by (simp add: p0_loadSavedLocations_defs)
      with p0_locationsData_ids [of docs e1 ls e2] w r2 docs show ?thesis by blast
    qed
  qed
qed


lemma p0_deleteLocation_cases:
  assumes "currentUser e = Some user" and "plain (uid user)" and "plain i"
  shows "\<not> fails e (calls e) \<Longrightarrow>
           p0_deleteLocation i t e =
             p0_loadSavedLocations t (e\<lparr>calls := Suc (calls e), db := without [''users'', uid user, ''locations''] i (db e)\<rparr>)"
    and "\<not> fails e (calls e) \<Longrightarrow>
           \<forall>r \<in> set (p0_savedLocations (fst (p0_deleteLocation i t e))). r ''id'' \<noteq> Some (VStr i)"
    and "fails e (calls e) \<Longrightarrow> p0_deleteLocation i t e = (t, e\<lparr>calls := Suc (calls e)\<rparr>)"
    and "p0_deleteLocation [] t e = (t, e)"
proof -
  let ?p = "[''users'', uid user, ''locations'']"
  let ?e1 = "e\<lparr>calls := Suc (calls e), db := without ?p i (db e)\<rparr>"
  show a: "\<not> fails e (calls e) \<Longrightarrow> p0_deleteLocation i t e = p0_loadSavedLocations t ?e1"
    using assms by (simp add: p0_deleteLocation_def doc_locations deleteDoc_def without_def)
  show "fails e (calls e) \<Longrightarrow> p0_deleteLocation i t e = (t, e\<lparr>calls := Suc (calls e)\<rparr>)"
    using assms by (simp add: p0_deleteLocation_def doc_locations deleteDoc_def)
  show "p0_deleteLocation [] t e = (t, e)"
    using assms by (simp add: p0_deleteLocation_def doc_empty_id)
  show "\<forall>r \<in> set (p0_savedLocations (fst (p0_deleteLocation i t e))). r ''id'' \<noteq> Some (VStr i)"
    if "\<not> fails e (calls e)"
  proof -
    have "currentUser ?e1 = Some user" using assms(1) by simp
    moreover have "\<forall>d \<in> set (db ?e1 ?p). fst d \<noteq> i" by (simp add: without_def)
    ultimately show ?thesis using p0_loadSavedLocations_ids [of ?e1 user t] a [OF that] by fastforce
  qed
qed


lemma plain_ids: "plain ''u1''" "plain ''w1''" "plain ''l1''" "plain ''x''"
  by (simp_all add: plain_def)

text \<open>
  C9, as stated, for the service variant: after the delete and the reload the list
  would never hold the deleted record. After a load that shows two workouts, a
  delete that succeeds and a reload that is lost, the controller has only logged, and
  the list still shows the record that the store no longer has.
\<close>

theorem C9_counterexample:
  "workouts (fst (AppComponent_loadWorkouts app1 env5)) = [swim_rec, run_rec]
   \<and> run_rec ''id'' = Some (VStr ''w1'')
   \<and> fst (AuthService_deleteWorkout ''u1'' ''w1'' (snd (AppComponent_loadWorkouts app1 env5))) = Inr ()
   \<and> map_of (db (snd (AppComponent_deleteWorkout ''w1'' (fst (AppComponent_loadWorkouts app1 env5))
                        (snd (AppComponent_loadWorkouts app1 env5))))
         [''users'', ''u1'', ''workouts'']) ''w1'' = None
   \<and> workouts (fst (AppComponent_deleteWorkout ''w1'' (fst (AppComponent_loadWorkouts app1 env5))
                     (snd (AppComponent_loadWorkouts app1 env5)))) = [swim_rec, run_rec]"
  by (simp add: AppComponent_deleteWorkout_def AuthService_deleteWorkout_def deleteDoc_def
      doc_workouts plain_ids
      AppComponent_loadWorkouts_def AuthService_loadWorkouts_def getDocs_def uid_of_def
      AuthService_workout_def field_key_def map_add_def fun_eq_iff swim_rec_def run_rec_def
      app1_def app0_def env5_def env3_def env1_def env0_def)

text \<open>
  C9, amended, for identifiers that are not empty and have no slash. The reload is
  issued only after the delete has succeeded, on the store as the delete left it.
  In the service variant: when the store answers both calls, the list is the facade's
  image of the query on the store without the deleted document, and no document of
  that answer has the deleted identifier; when the delete succeeds and the reload is
  lost, the document is gone from the store and the controller's state, the list with
  it, is as it was; when the delete is lost, no reload is issued and nothing changes
  but the count of calls. In the monolithic variant: when the delete succeeds, the
  method is the reload on the store without the document, and no record of the list
  carries the deleted identifier; when the delete is lost, nothing changes but the
  count of calls. In both variants a delete with an empty identifier is refused
  before any call, and nothing changes.
\<close>

theorem C9_delete_then_reload:
  "(uid_of (userData s) = Some u \<and> plain u \<and> plain i \<and> \<not> fails e (calls e) \<and> \<not> fails e (Suc (calls e)) \<longrightarrow>
      AppComponent_deleteWorkout i s e =
        (s\<lparr>workouts := map AuthService_workout
               (run_query (OrderBy [''users'', u, ''workouts''] ''date'' Desc)
                  (without [''users'', u, ''workouts''] i (db e)))\<rparr>,
         e\<lparr>calls := Suc (Suc (calls e)), db := without [''users'', u, ''workouts''] i (db e)\<rparr>)
      \<and> i \<notin> fst ` set (run_query (OrderBy [''users'', u, ''workouts''] ''date'' Desc)
                          (without [''users'', u, ''workouts''] i (db e)))
      \<and> AppComponent_deleteLocation i s e =
        (s\<lparr>savedLocations := map AuthService_location
               (run_query (OrderBy [''users'', u, ''locations''] ''savedAt'' Desc)
                  (without [''users'', u, ''locations''] i (db e)))\<rparr>,
         e\<lparr>calls := Suc (Suc (calls e)), db := without [''users'', u, ''locations''] i (db e)\<rparr>)
      \<and> i \<notin> fst ` set (run_query (OrderBy [''users'', u, ''locations''] ''savedAt'' Desc)
                          (without [''users'', u, ''locations''] i (db e))))
   \<and> (uid_of (userData s) = Some u \<and> plain u \<and> plain i \<and> \<not> fails e (calls e) \<and> fails e (Suc (calls e)) \<longrightarrow>
      AppComponent_deleteWorkout i s e =
        (s, e\<lparr>calls := Suc (Suc (calls e)), db := without [''users'', u, ''workouts''] i (db e)\<rparr>)
      \<and> AppComponent_deleteLocation i s e =
        (s, e\<lparr>calls := Suc (Suc (calls e)), db := without [''users'', u, ''locations''] i (db e)\<rparr>))
   \<and> (uid_of (userData s) = Some u \<and> plain u \<and> plain i \<and> fails e (calls e) \<longrightarrow>
      AppComponent_deleteWorkout i s e = (s, e\<lparr>calls := Suc (calls e)\<rparr>)
      \<and> AppComponent_deleteLocation i s e = (s, e\<lparr>calls := Suc (calls e)\<rparr>))
   \<and> (uid_of (userData s) = Some u \<and> plain u \<longrightarrow>
      AppComponent_deleteWorkout [] s e = (s, e) \<and> AppComponent_deleteLocation [] s e = (s, e))
   \<and> (currentUser e = Some user \<and> plain (uid user) \<and> plain i \<and> \<not> fails e (calls e) \<longrightarrow>
      p0_deleteWorkout i t e =
        p0_loadWorkouts t (e\<lparr>calls := Suc (calls e), db := without [''users'', uid user, ''workouts''] i (db e)\<rparr>)
      \<and> (\<forall>r \<in> set (p0_workouts (fst (p0_deleteWorkout i t e))). r ''id'' \<noteq> Some (VStr i))
      \<and> p0_deleteLocation i t e =
        p0_loadSavedLocations t (e\<lparr>calls := Suc (calls e), db := without [''users'', uid user, ''locations''] i (db e)\<rparr>)
      \<and> (\<forall>r \<in> set (p0_savedLocations (fst (p0_deleteLocation i t e))). r ''id'' \<noteq> Some (VStr i)))
   \<and> (currentUser e = Some user \<and> plain (uid user) \<and> plain i \<and> fails e (calls e) \<longrightarrow>
      p0_deleteWorkout i t e = (t, e\<lparr>calls := Suc (calls e)\<rparr>)
      \<and> p0_deleteLocation i t e = (t, e\<lparr>calls := Suc (calls e)\<rparr>))
   \<and> (currentUser e = Some user \<and> plain (uid user) \<longrightarrow>
      p0_deleteWorkout [] t e = (t, e) \<and> p0_deleteLocation [] t e = (t, e))"
  using AppComponent_deleteWorkout_cases [where s = s and u = u and i = i and e = e]
    AppComponent_deleteLocation_cases [where s = s and u = u and i = i and e = e]
    AppComponent_deleteWorkout_cases(4) [where s = s and u = u and i = "''x''" and e = e]
    AppComponent_deleteLocation_cases(4) [where s = s and u = u and i = "''x''" and e = e]
    p0_deleteWorkout_cases [where e = e and user = user and i = i and t = t]
    p0_deleteLocation_cases [where e = e and user = user and i = i and t = t]
    p0_deleteWorkout_cases(4) [where e = e and user = user and i = "''x''" and t = t]
    p0_deleteLocation_cases(4) [where e = e and user = user and i = "''x''" and t = t]
    run_query_without [of i "[''users'', u, ''workouts'']" "''date''" "db e"]
    run_query_without [of i "[''users'', u, ''locations'']" "''savedAt''" "db e"]
    plain_ids(4)
  by (simp del: run_query.simps)


theorem C9_delete_then_reload_witness:
  "AppComponent_deleteWorkout ''w1'' app1 env3 =
     (app1\<lparr>workouts := [swim_rec]\<rparr>,
      env3\<lparr>calls := 2, db := without [''users'', ''u1'', ''workouts''] ''w1'' (db env3)\<rparr>)
   \<and> AppComponent_deleteWorkout ''w1'' app1 env4 =
     (app1, env4\<lparr>calls := 2, db := without [''users'', ''u1'', ''workouts''] ''w1'' (db env4)\<rparr>)
   \<and> AppComponent_deleteLocation ''l1'' app1 env_down = (app1, env_down\<lparr>calls := 1\<rparr>)
   \<and> AppComponent_deleteLocation [] app1 env3 = (app1, env3)
   \<and> shown1 \<in> set (p0_workouts p0_app1) \<and> shown1 ''id'' = Some (VStr ''w1'')
   \<and> p0_workouts (fst (p0_deleteWorkout ''w1'' p0_app1 env3)) =
        [[''id'' \<mapsto> VStr ''w2'', ''name'' \<mapsto> VStr ''Swim'', ''type'' \<mapsto> VStr [],
          ''duration'' \<mapsto> VNum 0, ''notes'' \<mapsto> VStr [], ''date'' \<mapsto> VDate 200]]
   \<and> \<not> (\<exists>r \<in> set (p0_workouts (fst (p0_deleteWorkout ''w1'' p0_app1 env3))). r ''id'' = Some (VStr ''w1''))
   \<and> p0_deleteWorkout ''w1'' p0_app1 env_down = (p0_app1, env_down\<lparr>calls := 1\<rparr>)
   \<and> p0_deleteLocation [] p0_app1 env3 = (p0_app1, env3)"
proof -
  have h: "uid_of (userData app1) = Some ''u1''" "currentUser env3 = Some user1"
    "currentUser env_down = Some user1" "plain (uid user1)"
    "\<not> fails env3 (calls env3)" "\<not> fails env3 (Suc (calls env3))"
    "\<not> fails env4 (calls env4)" "fails env4 (Suc (calls env4))"
    "fails env_down (calls env_down)"
    "calls env3 = 0" "calls env4 = 0" "calls env_down = 0"
    by (simp_all add: uid_of_def plain_def app1_def app0_def user1_def env_down_def env4_def env3_def
        env1_def env0_def)
  have sh: "shown1 \<in> set (p0_workouts p0_app1)" "shown1 ''id'' = Some (VStr ''w1'')"
    by (simp_all add: p0_app1_def p0_app0_def shown1_def)
  have q: "map AuthService_workout
             (run_query (OrderBy [''users'', ''u1'', ''workouts''] ''date'' Desc)
                (without [''users'', ''u1'', ''workouts''] ''w1'' (db env3))) = [swim_rec]"
    by (simp add: without_def AuthService_workout_def field_key_def map_add_def fun_eq_iff swim_rec_def
        env3_def env1_def env0_def)
  have v: "p0_workouts (fst (p0_loadWorkouts p0_app1
              (env3\<lparr>calls := Suc (calls env3), db := without [''users'', uid user1, ''workouts''] ''w1'' (db env3)\<rparr>))) =
        [[''id'' \<mapsto> VStr ''w2'', ''name'' \<mapsto> VStr ''Swim'', ''type'' \<mapsto> VStr [],
          ''duration'' \<mapsto> VNum 0, ''notes'' \<mapsto> VStr [], ''date'' \<mapsto> VDate 200]]"
    by (simp add: p0_loadWorkouts_defs getDocs_def p0_workout_def without_def
        js_or_def field_key_def env3_def env1_def env0_def user1_def)
  note t3 = C9_delete_then_reload [of app1 "''u1''" "''w1''" env3 user1 p0_app1]
  note t4 = C9_delete_then_reload [of app1 "''u1''" "''w1''" env4 user1 p0_app1]
  note td = C9_delete_then_reload [of app1 "''u1''" "''l1''" env_down user1 p0_app1]
  note tw = C9_delete_then_reload [of app1 "''u1''" "''w1''" env_down user1 p0_app1]
  from t3 h plain_ids q have a: "AppComponent_deleteWorkout ''w1'' app1 env3 =
     (app1\<lparr>workouts := [swim_rec]\<rparr>,
      env3\<lparr>calls := 2, db := without [''users'', ''u1'', ''workouts''] ''w1'' (db env3)\<rparr>)"
    by (simp del: run_query.simps add: numeral_2_eq_2)
  from t4 h plain_ids have b: "AppComponent_deleteWorkout ''w1'' app1 env4 =
     (app1, env4\<lparr>calls := 2, db := without [''users'', ''u1'', ''workouts''] ''w1'' (db env4)\<rparr>)"
    by (simp del: run_query.simps add: numeral_2_eq_2)
  from td h plain_ids have c: "AppComponent_deleteLocation ''l1'' app1 env_down = (app1, env_down\<lparr>calls := 1\<rparr>)"
    by (simp del: run_query.simps)
  from t3 h plain_ids have d: "AppComponent_deleteLocation [] app1 env3 = (app1, env3)"
    "p0_deleteLocation [] p0_app1 env3 = (p0_app1, env3)"
    by (simp_all del: run_query.simps)
  from t3 h plain_ids have e: "p0_deleteWorkout ''w1'' p0_app1 env3 =
        p0_loadWorkouts p0_app1 (env3\<lparr>calls := Suc (calls env3), db := without [''users'', uid user1, ''workouts''] ''w1'' (db env3)\<rparr>)"
    "\<not> (\<exists>r \<in> set (p0_workouts (fst (p0_deleteWorkout ''w1'' p0_app1 env3))). r ''id'' = Some (VStr ''w1''))"
    by (simp_all del: run_query.simps)
  from tw h plain_ids have f: "p0_deleteWorkout ''w1'' p0_app1 env_down = (p0_app1, env_down\<lparr>calls := 1\<rparr>)"
    by (simp del: run_query.simps)
  from a b c d e f v sh show ?thesis by simp
qed

section \<open>C10: the date of an added workout\<close>

lemma p0_addWorkout_date:
  assumes "currentUser e = Some user" and "\<not> fails e (calls e)"
  shows "\<exists>d. map_of (db (snd (p0_addWorkout s e)) [''users'', uid user, ''workouts'']) (autoId e (calls e)) = Some d
     \<and> d ''date'' = Some (VTimestamp (clock e (ticks e)))"
proof -
  define wd where "wd = [''name'' \<mapsto> js_or (p0_newWorkout s ''name'') (VStr []),
                       ''type'' \<mapsto> js_or (p0_newWorkout s ''type'') (VStr []),
                       ''duration'' \<mapsto> js_or (p0_newWorkout s ''duration'') (VNum 0),
                       ''notes'' \<mapsto> js_or (p0_newWorkout s ''notes'') (VStr []),
                       ''date'' \<mapsto> VDate (clock e (ticks e))]"
  define e2 where "e2 = put [''users'', uid user, ''workouts''] (autoId e (calls e)) (stored wd)
                          (e\<lparr>ticks := Suc (ticks e), calls := Suc (calls e)\<rparr>)"
  have "snd (p0_addWorkout s e) = (snd (p0_loadWorkouts s e2))\<lparr>ticks := Suc (ticks (snd (p0_loadWorkouts s e2)))\<rparr>"
    using assms
    by (simp add: p0_addWorkout_def addDoc_def new_Date_def Let_def wd_def e2_def split: prod.splits)
  then have "db (snd (p0_addWorkout s e)) = db e2"
    by (simp add: p0_loadWorkouts_db)
  then show ?thesis
    by (simp add: e2_def put_def stored_def wd_def)
qed

text \<open>
  C10: whatever workout is passed, date of its own or not, the document that
  \<open>addWorkout\<close> stores carries as its date the reading of the clock made by the call.
\<close>

theorem C10_addWorkout_date:
  "(\<not> fails e (calls e) \<longrightarrow>
      (\<exists>e' d. AuthService_addWorkout u w e = (Inr (autoId e (calls e)), e')
         \<and> map_of (db e' [''users'', u, ''workouts'']) (autoId e (calls e)) = Some d
         \<and> d ''date'' = Some (VTimestamp (clock e (ticks e)))))
   \<and> (currentUser e = Some user \<and> \<not> fails e (calls e) \<longrightarrow>
      (\<exists>d. map_of (db (snd (p0_addWorkout t e)) [''users'', uid user, ''workouts'']) (autoId e (calls e)) = Some d
         \<and> d ''date'' = Some (VTimestamp (clock e (ticks e)))))"
  using p0_addWorkout_date [of e user t]
  by (simp add: AuthService_addWorkout_def store_defs stored_def)

theorem C10_addWorkout_date_witness:
  "\<not> fails env1 (calls env1) \<and> currentUser env1 = Some user1 \<and> workout1 ''date'' = Some (VDate 5)
   \<and> p0_newWorkout p0_app1 = workout1
   \<and> (\<exists>e' d. AuthService_addWorkout ''u1'' workout1 env1 = (Inr ''doc'', e')
         \<and> map_of (db e' [''users'', ''u1'', ''workouts'']) ''doc'' = Some d
         \<and> d ''date'' = Some (VTimestamp 1000))
   \<and> (\<exists>d. map_of (db (snd (p0_addWorkout p0_app1 env1)) [''users'', ''u1'', ''workouts'']) ''doc'' = Some d
         \<and> d ''date'' = Some (VTimestamp 1000))"
  using C10_addWorkout_date [of env1 "''u1''" workout1 user1 p0_app1]
  by (simp add: env1_def env0_def user1_def workout1_def p0_app1_def p0_app0_def)

end
